theory Spec2Isabelle
  imports Complex_Main
begin

section \<open>JavaScript numbers\<close>

text \<open>
  A JavaScript number is an IEEE 754 binary64 value: NaN, an infinity, or a finite value
  with a sign bit. A finite value is kept as its sign and its magnitude, an exact
  rational; the arithmetic operators round the exact result to the nearest representable
  value, ties to the even mantissa, as the language prescribes for \<open>+\<close>, \<open>*\<close> and \<open>/\<close>.
\<close>

datatype number = NaN | Infinity bool | Finite bool rat

function bit_length :: "int \<Rightarrow> int" where
  "bit_length n = (if n \<le> 0 then 0 else 1 + bit_length (n div 2))"
  by pat_completeness auto
termination
  by (relation "measure nat") auto

declare bit_length.simps [simp del]

definition pow2 :: "int \<Rightarrow> rat" where
  "pow2 k = (if 0 \<le> k then 2 ^ nat k else 1 / 2 ^ nat (- k))"

text \<open>The exponent \<open>k\<close> with \<open>2 ^ k \<le> a < 2 ^ (k + 1)\<close>, for a positive \<open>a\<close>.\<close>

definition floor_log2 :: "rat \<Rightarrow> int" where
  "floor_log2 a =
     (if 1 \<le> a then bit_length \<lfloor>a\<rfloor> - 1
      else - bit_length (\<lceil>1 / a\<rceil> - 1))"

definition round_half_even :: "rat \<Rightarrow> int" where
  "round_half_even s =
     (let f = \<lfloor>s\<rfloor>; d = s - of_int f
      in if d < 1 / 2 then f
         else if 1 / 2 < d then f + 1
         else if even f then f else f + 1)"

text \<open>
  Rounding a magnitude to 53 significant bits; below \<open>2 ^ - 1022\<close> the spacing stays
  \<open>2 ^ - 1074\<close> (subnormal values).
\<close>

definition round_mag :: "rat \<Rightarrow> rat" where
  "round_mag a =
     (if a \<le> 0 then 0
      else let e = max (floor_log2 a - 52) (- 1074)
           in of_int (round_half_even (a / pow2 e)) * pow2 e)"

definition pack :: "bool \<Rightarrow> rat \<Rightarrow> number" where
  "pack s a = (let r = round_mag a in if pow2 1024 \<le> r then Infinity s else Finite s r)"

text \<open>The value of a numeric literal of the source: the double nearest to it.\<close>

definition double_of :: "rat \<Rightarrow> number" where
  "double_of x = pack (x < 0) \<bar>x\<bar>"

definition signed :: "bool \<Rightarrow> rat \<Rightarrow> rat" where
  "signed s a = (if s then - a else a)"

fun num_add :: "number \<Rightarrow> number \<Rightarrow> number" where
  "num_add NaN _ = NaN"
| "num_add _ NaN = NaN"
| "num_add (Infinity s) (Infinity t) = (if s = t then Infinity s else NaN)"
| "num_add (Infinity s) (Finite _ _) = Infinity s"
| "num_add (Finite _ _) (Infinity t) = Infinity t"
| "num_add (Finite s a) (Finite t b) =
     (let x = signed s a + signed t b
      in if x = 0 then Finite (s \<and> t) 0 else pack (x < 0) \<bar>x\<bar>)"

fun num_mul :: "number \<Rightarrow> number \<Rightarrow> number" where
  "num_mul NaN _ = NaN"
| "num_mul _ NaN = NaN"
| "num_mul (Infinity s) (Infinity t) = Infinity (s \<noteq> t)"
| "num_mul (Infinity s) (Finite t b) = (if b = 0 then NaN else Infinity (s \<noteq> t))"
| "num_mul (Finite s a) (Infinity t) = (if a = 0 then NaN else Infinity (s \<noteq> t))"
| "num_mul (Finite s a) (Finite t b) = pack (s \<noteq> t) (a * b)"

fun num_div :: "number \<Rightarrow> number \<Rightarrow> number" where
  "num_div NaN _ = NaN"
| "num_div _ NaN = NaN"
| "num_div (Infinity s) (Infinity t) = NaN"
| "num_div (Infinity s) (Finite t b) = Infinity (s \<noteq> t)"
| "num_div (Finite s a) (Infinity t) = Finite (s \<noteq> t) 0"
| "num_div (Finite s a) (Finite t b) =
     (if b = 0 then (if a = 0 then NaN else Infinity (s \<noteq> t))
      else pack (s \<noteq> t) (a / b))"

text \<open>A number is falsy when it is NaN or a zero of either sign.\<close>

fun num_truthy :: "number \<Rightarrow> bool" where
  "num_truthy NaN = False"
| "num_truthy (Infinity _) = True"
| "num_truthy (Finite _ a) = (a \<noteq> 0)"

section \<open>JavaScript values\<close>

text \<open>
  The payloads of \<open>route.ts\<close> are typed \<open>any\<close>: a value is whatever \<open>JSON.parse\<close> produced,
  and reading a missing property gives \<open>undefined\<close>. An object keeps its properties in
  insertion order.
\<close>

datatype js =
    Undefined
  | Null
  | Bool bool
  | Num number
  | Str string
  | Arr "js list"
  | Obj "(string \<times> js) list"

fun truthy :: "js \<Rightarrow> bool" where
  "truthy Undefined = False"
| "truthy Null = False"
| "truthy (Bool b) = b"
| "truthy (Num n) = num_truthy n"
| "truthy (Str s) = (s \<noteq> [])"
| "truthy (Arr _) = True"
| "truthy (Obj _) = True"

fun nullish :: "js \<Rightarrow> bool" where
  "nullish Undefined = True"
| "nullish Null = True"
| "nullish _ = False"

text \<open>The operators \<open>a || b\<close>, \<open>a && b\<close> and \<open>a ?? b\<close>.\<close>

definition jor :: "js \<Rightarrow> js \<Rightarrow> js" where
  "jor a b = (if truthy a then a else b)"

definition jand :: "js \<Rightarrow> js \<Rightarrow> js" where
  "jand a b = (if truthy a then b else a)"

definition jnc :: "js \<Rightarrow> js \<Rightarrow> js" where
  "jnc a b = (if nullish a then b else a)"

text \<open>
  \<open>jget v k\<close> is the read \<open>v.k\<close> on a value that is neither \<open>null\<close> nor \<open>undefined\<close>.
  The program reads only the property names of its payload schema, none of which is
  an array index, \<open>length\<close> or a name inherited from a prototype, so a string, an array,
  a number and a boolean have none of them. The property names of an object are
  distinct; of a list that repeats a name the first entry counts. \<open>jget_opt v k\<close> is the
  optional read \<open>v?.k\<close>.
\<close>

fun jget :: "js \<Rightarrow> string \<Rightarrow> js" where
  "jget (Obj kvs) k = (case map_of kvs k of None \<Rightarrow> Undefined | Some v \<Rightarrow> v)"
| "jget _ k = Undefined"

definition jget_opt :: "js \<Rightarrow> string \<Rightarrow> js" where
  "jget_opt v k = (if nullish v then Undefined else jget v k)"

text \<open>The assignment \<open>o.k = v\<close> on an object: an own property keeps its place, a new one goes last.\<close>

fun assign_list :: "(string \<times> js) list \<Rightarrow> string \<Rightarrow> js \<Rightarrow> (string \<times> js) list" where
  "assign_list [] k v = [(k, v)]"
| "assign_list ((k', v') # kvs) k v =
     (if k' = k then (k, v) # kvs else (k', v') # assign_list kvs k v)"

fun assign :: "js \<Rightarrow> string \<Rightarrow> js \<Rightarrow> js" where
  "assign (Obj kvs) k v = Obj (assign_list kvs k v)"
| "assign o' k v = o'"

datatype error =
    TypeError
  | SyntaxError
  | FetchFailed
  | MicroserviceError nat string

section \<open>The API route: \<open>src/app/api/process/route.ts\<close>\<close>

text \<open>
  \<open>transformMicroserviceResponse\<close> reshapes the payload of the extraction service. Its
  first statement reads \<open>microserviceData.totals\<close>, a \<open>TypeError\<close> when the payload is
  \<open>null\<close> or \<open>undefined\<close>; nothing else in it can throw. Both branches are written out
  as the source has them.
\<close>

definition isOldFormat :: "js \<Rightarrow> js" where
  "isOldFormat microserviceData =
     jand (jget microserviceData ''totals'') (jget microserviceData ''extras'')"

definition transformed_old :: "js \<Rightarrow> js" where
  "transformed_old microserviceData =
     (let totals = jor (jget microserviceData ''totals'') (Obj []);
          extras = jor (jget microserviceData ''extras'') (Obj [])
      in Obj
        [(''total_quote'', Obj
            [(''status'', jor (jget_opt (jget totals ''total_quote'') ''status'') (Str ''not_found'')),
             (''value'', jnc (jnc (jget_opt (jget totals ''total_quote'') ''amount'') (jget_opt (jget totals ''total_quote'') ''value'')) Null),
             (''currency'', jor (jget_opt (jget totals ''total_quote'') ''currency'') (Str ''USD'')),
             (''provenance_snippet'', jor (jget_opt (jget totals ''total_quote'') ''provenance_snippet'') Null),
             (''notes'', jor (jget_opt (jget totals ''total_quote'') ''notes'') (Str ''''))]),
         (''guestroom_total'', Obj
            [(''status'', jor (jget_opt (jget totals ''guestroom_total'') ''status'') (Str ''not_found'')),
             (''value'', jnc (jnc (jget_opt (jget totals ''guestroom_total'') ''amount'') (jget_opt (jget totals ''guestroom_total'') ''value'')) Null),
             (''currency'', jor (jget_opt (jget totals ''guestroom_total'') ''currency'') (Str ''USD'')),
             (''provenance_snippet'', jor (jget_opt (jget totals ''guestroom_total'') ''provenance_snippet'') Null),
             (''notes'', jor (jget_opt (jget totals ''guestroom_total'') ''notes'') (Str ''''))]),
         (''meeting_room_total'', Obj
            [(''status'', jor (jget_opt (jget totals ''meeting_room_total'') ''status'') (Str ''not_found'')),
             (''value'', jnc (jnc (jget_opt (jget totals ''meeting_room_total'') ''amount'') (jget_opt (jget totals ''meeting_room_total'') ''value'')) Null),
             (''currency'', jor (jget_opt (jget totals ''meeting_room_total'') ''currency'') (Str ''USD'')),
             (''provenance_snippet'', jor (jget_opt (jget totals ''meeting_room_total'') ''provenance_snippet'') Null),
             (''notes'', jor (jget_opt (jget totals ''meeting_room_total'') ''notes'') (Str ''''))]),
         (''fnb_total'', Obj
            [(''status'', jor (jget_opt (jget totals ''fnb_total'') ''status'') (Str ''not_found'')),
             (''value'', jnc (jnc (jget_opt (jget totals ''fnb_total'') ''amount'') (jget_opt (jget totals ''fnb_total'') ''value'')) Null),
             (''currency'', jor (jget_opt (jget totals ''fnb_total'') ''currency'') (Str ''USD'')),
             (''provenance_snippet'', jor (jget_opt (jget totals ''fnb_total'') ''provenance_snippet'') Null),
             (''notes'', jor (jget_opt (jget totals ''fnb_total'') ''notes'') (Str ''''))]),
         (''extras'', Obj
            [(''room_nights'', jor (jget extras ''room_nights'') Null),
             (''nightly_rate'', jor (jget extras ''nightly_rate'') Null),
             (''tax_rate_pct'', jor (jget extras ''tax_rate_pct'') Null),
             (''service_rate_pct'', jor (jget extras ''service_rate_pct'') Null),
             (''fnb_minimum'', jor (jget extras ''fnb_minimum'') Null),
             (''proposal_url'', jor (jget extras ''proposal_url'') Null),
             (''guestroom_base'', jor (jget extras ''guestroom_base'') Null),
             (''guestroom_taxes_fees'', jor (jget extras ''guestroom_taxes_fees'') Null),
             (''estimated_fnb_gross'', jor (jget extras ''estimated_fnb_gross'') Null),
             (''effective_value_offsets'', jor (jget extras ''effective_value_offsets'') (Arr []))])])"

definition transformed_new :: "js \<Rightarrow> js" where
  "transformed_new microserviceData =
     Obj
       [(''total_quote'', Obj
           [(''status'', jor (jget_opt (jget microserviceData ''total_quote'') ''status'') (Str ''not_found'')),
            (''value'', jnc (jnc (jget_opt (jget microserviceData ''total_quote'') ''amount'') (jget_opt (jget microserviceData ''total_quote'') ''value'')) Null),
            (''currency'', jor (jget_opt (jget microserviceData ''total_quote'') ''currency'') (Str ''USD'')),
            (''provenance_snippet'', jor (jget_opt (jget microserviceData ''total_quote'') ''provenance_snippet'') Null),
            (''notes'', jor (jget_opt (jget microserviceData ''total_quote'') ''notes'') (Str ''''))]),
        (''guestroom_total'', Obj
           [(''status'', jor (jget_opt (jget microserviceData ''guestroom_total'') ''status'') (Str ''not_found'')),
            (''value'', jnc (jnc (jget_opt (jget microserviceData ''guestroom_total'') ''amount'') (jget_opt (jget microserviceData ''guestroom_total'') ''value'')) Null),
            (''currency'', jor (jget_opt (jget microserviceData ''guestroom_total'') ''currency'') (Str ''USD'')),
            (''provenance_snippet'', jor (jget_opt (jget microserviceData ''guestroom_total'') ''provenance_snippet'') Null),
            (''notes'', jor (jget_opt (jget microserviceData ''guestroom_total'') ''notes'') (Str ''''))]),
        (''meeting_room_total'', Obj
           [(''status'', jor (jget_opt (jget microserviceData ''meeting_room_total'') ''status'') (Str ''not_found'')),
            (''value'', jnc (jnc (jget_opt (jget microserviceData ''meeting_room_total'') ''amount'') (jget_opt (jget microserviceData ''meeting_room_total'') ''value'')) Null),
            (''currency'', jor (jget_opt (jget microserviceData ''meeting_room_total'') ''currency'') (Str ''USD'')),
            (''provenance_snippet'', jor (jget_opt (jget microserviceData ''meeting_room_total'') ''provenance_snippet'') Null),
            (''notes'', jor (jget_opt (jget microserviceData ''meeting_room_total'') ''notes'') (Str ''''))]),
        (''fnb_total'', Obj
           [(''status'', jor (jget_opt (jget microserviceData ''fnb_total'') ''status'') (Str ''not_found'')),
            (''value'', jnc (jnc (jget_opt (jget microserviceData ''fnb_total'') ''amount'') (jget_opt (jget microserviceData ''fnb_total'') ''value'')) Null),
            (''currency'', jor (jget_opt (jget microserviceData ''fnb_total'') ''currency'') (Str ''USD'')),
            (''provenance_snippet'', jor (jget_opt (jget microserviceData ''fnb_total'') ''provenance_snippet'') Null),
            (''notes'', jor (jget_opt (jget microserviceData ''fnb_total'') ''notes'') (Str ''''))]),
        (''extras'', Obj
           [(''room_nights'', jor (jget microserviceData ''room_nights'') Null),
            (''nightly_rate'', jor (jget microserviceData ''nightly_rate'') Null),
            (''tax_rate_pct'', jor (jget microserviceData ''tax_rate_pct'') Null),
            (''service_rate_pct'', jor (jget microserviceData ''service_rate_pct'') Null),
            (''fnb_minimum'', jor (jget microserviceData ''fnb_minimum'') Null),
            (''proposal_url'', jor (jget microserviceData ''proposal_url'') Null),
            (''guestroom_base'', jor (jget microserviceData ''guestroom_base'') Null),
            (''guestroom_taxes_fees'', jor (jget microserviceData ''guestroom_taxes_fees'') Null),
            (''estimated_fnb_gross'', jor (jget microserviceData ''estimated_fnb_gross'') Null),
            (''effective_value_offsets'', jor (jget microserviceData ''effective_value_offsets'') (Arr []))])]"

definition add_common_fields :: "js \<Rightarrow> js \<Rightarrow> js" where
  "add_common_fields microserviceData transformed =
     (let t1 = assign transformed ''property'' (jor (jget microserviceData ''property'') (Obj []));
          t2 = assign t1 ''program'' (jor (jget microserviceData ''program'') (Obj []));
          t3 = assign t2 ''concessions'' (jor (jget microserviceData ''concessions'') (Arr []));
          t4 = assign t3 ''policies'' (jor (jget microserviceData ''policies'') (Obj []));
          t5 = assign t4 ''sources'' (jor (jget microserviceData ''sources'') (Arr []))
      in t5)"

definition transformMicroserviceResponse :: "js \<Rightarrow> error + js" where
  "transformMicroserviceResponse microserviceData =
     (if nullish microserviceData then Inl TypeError
      else Inr (add_common_fields microserviceData
             (if truthy (isOldFormat microserviceData)
              then transformed_old microserviceData
              else transformed_new microserviceData)))"

subsection \<open>The \<open>POST\<close> handler\<close>

text \<open>
  A form entry is a string or a file. \<open>FormData.get\<close> gives the first entry under a key,
  or \<open>null\<close>; a file is an object and so truthy, a string is truthy when it is not empty.
\<close>

datatype form_value = Text string | File string nat string \<comment> \<open>a file: its name, size and type\<close>

type_synonym FormData = "(string \<times> form_value) list"

definition form_get :: "FormData \<Rightarrow> string \<Rightarrow> form_value option" where
  "form_get formData k = map_of formData k"

fun provided :: "form_value option \<Rightarrow> bool" where
  "provided None = False"
| "provided (Some (Text s)) = (s \<noteq> [])"
| "provided (Some (File name size' type')) = True"

text \<open>The statement \<open>if (v) { form.append(k, v) }\<close>.\<close>

fun append_if_provided :: "FormData \<Rightarrow> string \<Rightarrow> form_value option \<Rightarrow> FormData" where
  "append_if_provided form k None = form"
| "append_if_provided form k (Some v) = (if provided (Some v) then form @ [(k, v)] else form)"

text \<open>
  \<open>emailContent.substring(0, 100)\<close> runs when \<open>emailContent\<close> is truthy; the cast
  \<open>as string\<close> checks nothing, and on a file the call is a \<open>TypeError\<close>.
\<close>

fun substring_throws :: "form_value option \<Rightarrow> bool" where
  "substring_throws (Some (File name size' type')) = True"
| "substring_throws _ = False"

text \<open>\<open>legacyFile.type === 'application/pdf'\<close>; a string has no \<open>type\<close>.\<close>

fun is_pdf :: "form_value \<Rightarrow> bool" where
  "is_pdf (File name size' type') = (type' = ''application/pdf'')"
| "is_pdf (Text s) = False"

fun append_legacy :: "FormData \<Rightarrow> form_value option \<Rightarrow> FormData" where
  "append_legacy form None = form"
| "append_legacy form (Some legacyFile) =
     (if is_pdf legacyFile then form @ [(''proposal_file'', legacyFile)]
      else form @ [(''email_file'', legacyFile)])"

text \<open>
  What \<open>fetch\<close> and the reads of its response can do: the call rejects, or a response
  arrives with its \<open>ok\<close> flag, its status, its text, and the result of \<open>response.json()\<close>
  (\<open>None\<close> when the body is not JSON, a \<open>SyntaxError\<close>).
\<close>

datatype fetch_result = Rejected | Response bool nat string "js option"

record NextResponse =
  body :: js
  http_status :: nat

text \<open>
  The handler's result: the response it returns, and the form data of every request it
  sent to the \<open>/extract\<close> endpoint of the microservice, in order.
\<close>

record outcome =
  response :: NextResponse
  extract_calls :: "FormData list"

text \<open>
  The form data sent on to the microservice: the inputs that were provided, in the
  order the handler appends them, and the legacy \<open>file\<close> entry when neither a proposal file
  nor an email file came with it.
\<close>

definition microservice_form :: "FormData \<Rightarrow> FormData" where
  "microservice_form formData =
     (let emailContent = form_get formData ''email_content'';
          emailFile = form_get formData ''email_file'';
          proposalFile = form_get formData ''proposal_file'';
          proposalUrl = form_get formData ''proposal_url'';
          legacyFile = form_get formData ''file'';
          m1 = append_if_provided [] ''email_content'' emailContent;
          m2 = append_if_provided m1 ''email_file'' emailFile;
          m3 = append_if_provided m2 ''proposal_file'' proposalFile;
          m4 = append_if_provided m3 ''proposal_url'' proposalUrl
      in if provided legacyFile \<and> \<not> provided proposalFile \<and> \<not> provided emailFile
         then append_legacy m4 legacyFile else m4)"

text \<open>The guard \<open>!emailContent && !emailFile && !proposalFile && !proposalUrl && !legacyFile\<close>.\<close>

definition no_content :: "FormData \<Rightarrow> bool" where
  "no_content formData =
     (\<not> provided (form_get formData ''email_content'')
      \<and> \<not> provided (form_get formData ''email_file'')
      \<and> \<not> provided (form_get formData ''proposal_file'')
      \<and> \<not> provided (form_get formData ''proposal_url'')
      \<and> \<not> provided (form_get formData ''file''))"

text \<open>
  What the handler does with the parsed body of the microservice's response. Reading
  \<open>result.success\<close> is a \<open>TypeError\<close> when the body is the JSON \<open>null\<close>.
\<close>

definition handle_result :: "js \<Rightarrow> error + NextResponse" where
  "handle_result result =
     (if nullish result then Inl TypeError
      else if \<not> truthy (jget result ''success'')
      then Inr \<lparr>body = Obj [(''error'', jget result ''error'')], http_status = 500\<rparr>
      else
        (case transformMicroserviceResponse (jget result ''data'') of
           Inl e \<Rightarrow> Inl e
         | Inr transformedData \<Rightarrow>
             Inr \<lparr>body = Obj
                    [(''success'', Bool True),
                     (''data'', transformedData),
                     (''sources'', jget result ''sources''),
                     (''urls_found'', jget result ''urls_found'')],
                  http_status = 200\<rparr>))"

definition handle_fetch :: "fetch_result \<Rightarrow> error + NextResponse" where
  "handle_fetch r =
     (case r of
        Rejected \<Rightarrow> Inl FetchFailed
      | Response ok status errorText parsed \<Rightarrow>
          if \<not> ok then Inl (MicroserviceError status errorText)
          else (case parsed of None \<Rightarrow> Inl SyntaxError | Some result \<Rightarrow> handle_result result))"

text \<open>
  The body of the \<open>try\<close> block. The request is \<open>None\<close> when \<open>request.formData()\<close> rejects
  (the body is not form data). The microservice is a function from the form data sent to
  what \<open>fetch\<close> does with it.
\<close>

definition POST_try ::
  "FormData option \<Rightarrow> (FormData \<Rightarrow> fetch_result) \<Rightarrow> (error + NextResponse) \<times> FormData list" where
  "POST_try request fetch =
     (case request of
        None \<Rightarrow> (Inl TypeError, [])
      | Some formData \<Rightarrow>
          if provided (form_get formData ''email_content'')
             \<and> substring_throws (form_get formData ''email_content'')
          then (Inl TypeError, [])
          else if no_content formData
          then (Inr \<lparr>body = Obj [(''error'', Str ''No content provided for extraction'')],
                     http_status = 400\<rparr>, [])
          else (handle_fetch (fetch (microservice_form formData)), [microservice_form formData]))"

text \<open>The \<open>catch\<close> block answers every exception alike.\<close>

definition POST :: "FormData option \<Rightarrow> (FormData \<Rightarrow> fetch_result) \<Rightarrow> outcome" where
  "POST request fetch =
     (case POST_try request fetch of
        (Inl e, calls) \<Rightarrow>
          \<lparr>response = \<lparr>body = Obj [(''error'', Str ''Failed to process content'')], http_status = 500\<rparr>,
           extract_calls = calls\<rparr>
      | (Inr r, calls) \<Rightarrow> \<lparr>response = r, extract_calls = calls\<rparr>)"

section \<open>The page: \<open>src/app/page.tsx\<close>\<close>

text \<open>
  The page works on the typed record \<open>QuoteData\<close>. The interface declares \<open>extras\<close> as
  always there; the code reads it with \<open>?.\<close>, so the model lets it be absent.
\<close>

datatype quote_status = Explicit | Derived | Conditional | Not_found

record MoneyField =
  status :: quote_status
  "value" :: "number option"
  currency :: string
  provenance_snippet :: "string option"
  "notes" :: string

record Extras =
  room_nights :: "number option"
  nightly_rate :: "number option"
  tax_rate_pct :: "number option"
  service_rate_pct :: "number option"
  fnb_minimum :: "number option"
  proposal_url :: "string option"
  guestroom_base :: "number option"
  guestroom_taxes_fees :: "number option"
  estimated_fnb_gross :: "number option"
  effective_value_offsets :: "string list"

record QuoteData =
  total_quote :: MoneyField
  guestroom_total :: MoneyField
  meeting_room_total :: MoneyField
  fnb_total :: MoneyField
  extras :: "Extras option"
  property :: "js option"
  program :: "js option"
  concessions :: "string list option"
  policies :: "js option"
  sources :: "string list option"

text \<open>\<open>a || b\<close> and \<open>a || 0\<close> on values of type \<open>number | null\<close> (or \<open>undefined\<close>).\<close>

fun number_provided :: "number option \<Rightarrow> bool" where
  "number_provided None = False"
| "number_provided (Some n) = num_truthy n"

definition or_number :: "number option \<Rightarrow> number option \<Rightarrow> number option" where
  "or_number a b = (if number_provided a then a else b)"

fun or_zero :: "number option \<Rightarrow> number" where
  "or_zero None = Finite False 0"
| "or_zero (Some n) = (if num_truthy n then n else Finite False 0)"

text \<open>\<open>a || b\<close> on strings, \<open>a\<close> of type \<open>string | null\<close>: the empty string is falsy.\<close>

fun string_provided :: "string option \<Rightarrow> bool" where
  "string_provided None = False"
| "string_provided (Some s) = (s \<noteq> [])"

definition or_string :: "string option \<Rightarrow> string \<Rightarrow> string" where
  "or_string a b = (case a of None \<Rightarrow> b | Some s \<Rightarrow> if string_provided a then s else b)"

definition getTotalQuoteSubtitle :: "QuoteData option \<Rightarrow> string option" where
  "getTotalQuoteSubtitle quoteData =
     (case quoteData of
        None \<Rightarrow> None
      | Some q \<Rightarrow>
          if status (total_quote q) = Not_found
          then Some ''Hotel did not provide an all-in total.''
          else None)"

definition getCalculatedTotalQuote :: "QuoteData option \<Rightarrow> number option" where
  "getCalculatedTotalQuote quoteData =
     (case quoteData of
        None \<Rightarrow> None
      | Some q \<Rightarrow>
          let guestroom = or_zero (value (guestroom_total q));
              meeting = or_zero (value (meeting_room_total q));
              fnb = or_zero (or_number
                      (case extras q of None \<Rightarrow> None | Some e \<Rightarrow> estimated_fnb_gross e)
                      (value (fnb_total q)))
          in Some (num_add (num_add guestroom meeting) fnb))"

text \<open>
  A template literal is kept as its pieces: the literal text, a number formatted by
  \<open>money\<close> (the \<open>en-US\<close> currency format), and a number converted by the template itself.
\<close>

datatype piece = Lit string | Money number | Plain number

definition getFnbBreakdown :: "QuoteData option \<Rightarrow> piece list option" where
  "getFnbBreakdown quoteData =
     (case quoteData of
        None \<Rightarrow> None
      | Some q \<Rightarrow>
          (case extras q of
             None \<Rightarrow> None
           | Some e \<Rightarrow>
               (case estimated_fnb_gross e of
                  None \<Rightarrow> None
                | Some gross \<Rightarrow>
                    if num_truthy gross
                    then Some
                      [Lit ''F&B Minimum: '',
                       Money (or_zero (fnb_minimum e)),
                       Lit ''; Service Charge ('',
                       Plain (or_zero (service_rate_pct e)),
                       Lit ''%): '',
                       Money (num_div (num_mul (or_zero (fnb_minimum e)) (or_zero (service_rate_pct e)))
                                (double_of 100)),
                       Lit ''; Tax on Service Charge ('',
                       Plain (or_zero (tax_rate_pct e)),
                       Lit ''%): '',
                       Money (num_div
                                (num_mul
                                   (num_div (num_mul (or_zero (fnb_minimum e)) (or_zero (service_rate_pct e)))
                                      (double_of 100))
                                   (or_zero (tax_rate_pct e)))
                                (double_of 100)),
                       Lit ''; Tax on F&B ('',
                       Plain (or_zero (tax_rate_pct e)),
                       Lit ''%): '',
                       Money (num_div (num_mul (or_zero (fnb_minimum e)) (or_zero (tax_rate_pct e)))
                                (double_of 100)),
                       Lit ''; Total: '',
                       Money gross]
                    else None)))"

definition getMeetingRoomConditions :: "QuoteData option \<Rightarrow> string list" where
  "getMeetingRoomConditions quoteData =
     (case quoteData of
        None \<Rightarrow> []
      | Some q \<Rightarrow>
          if status (meeting_room_total q) = Conditional
          then
            let condition =
                  or_string (provenance_snippet (meeting_room_total q))
                    (or_string (Some (notes (meeting_room_total q)))
                       ''Conditional on F&B minimum'')
            in [condition]
          else [])"

text \<open>
  The properties the page hands to a \<open>TotalCard\<close>, and the cards for the total quote,
  the meeting rooms and the food and beverage total as it renders them once a record is
  there (the icons left out).
\<close>

record TotalCardProps =
  title :: string
  card_value :: "number option"
  card_status :: quote_status
  subtitle :: "string option"
  breakdown :: "piece list option"
  provenance :: "string option"
  conditions :: "string list"

definition total_quote_card :: "QuoteData \<Rightarrow> TotalCardProps" where
  "total_quote_card quoteData =
     \<lparr>title = ''Total Quote'',
      card_value = getCalculatedTotalQuote (Some quoteData),
      card_status = status (total_quote quoteData),
      subtitle = getTotalQuoteSubtitle (Some quoteData),
      breakdown = None,
      provenance = provenance_snippet (total_quote quoteData),
      conditions = []\<rparr>"

definition meeting_room_card :: "QuoteData \<Rightarrow> TotalCardProps" where
  "meeting_room_card quoteData =
     \<lparr>title = ''Meeting Room Total'',
      card_value = value (meeting_room_total quoteData),
      card_status = status (meeting_room_total quoteData),
      subtitle = None,
      breakdown = None,
      provenance = provenance_snippet (meeting_room_total quoteData),
      conditions = getMeetingRoomConditions (Some quoteData)\<rparr>"

definition fnb_card :: "QuoteData \<Rightarrow> TotalCardProps" where
  "fnb_card quoteData =
     \<lparr>title = ''Food & Beverage Total'',
      card_value = or_number
        (case extras quoteData of None \<Rightarrow> None | Some e \<Rightarrow> estimated_fnb_gross e)
        (value (fnb_total quoteData)),
      card_status = status (fnb_total quoteData),
      subtitle = None,
      breakdown = getFnbBreakdown (Some quoteData),
      provenance = provenance_snippet (fnb_total quoteData),
      conditions = []\<rparr>"

section \<open>The payload schema\<close>

text \<open>
  The property names the route reads: the four MoneyFields, the numeric extras, and the
  fields it copies from the payload whatever its format.
\<close>

definition money_names :: "string list" where
  "money_names = [''total_quote'', ''guestroom_total'', ''meeting_room_total'', ''fnb_total'']"

definition numeric_extras :: "string list" where
  "numeric_extras = [''room_nights'', ''nightly_rate'', ''tax_rate_pct'', ''service_rate_pct'',
     ''fnb_minimum'', ''guestroom_base'', ''guestroom_taxes_fees'', ''estimated_fnb_gross'']"

definition extras_names :: "string list" where
  "extras_names = numeric_extras @ [''proposal_url'', ''effective_value_offsets'']"

definition common_names :: "string list" where
  "common_names = [''property'', ''program'', ''concessions'', ''policies'', ''sources'']"

definition input_keys :: "string list" where
  "input_keys = [''email_content'', ''email_file'', ''proposal_file'', ''proposal_url'', ''file'']"

text \<open>
  The five lines the source writes for each MoneyField, in each branch, as a function of
  the upstream field \<open>u\<close> they read.
\<close>

definition money_field :: "js \<Rightarrow> js" where
  "money_field u =
     Obj [(''status'', jor (jget_opt u ''status'') (Str ''not_found'')),
          (''value'', jnc (jnc (jget_opt u ''amount'') (jget_opt u ''value'')) Null),
          (''currency'', jor (jget_opt u ''currency'') (Str ''USD'')),
          (''provenance_snippet'', jor (jget_opt u ''provenance_snippet'') Null),
          (''notes'', jor (jget_opt u ''notes'') (Str ''''))]"

text \<open>
  The invariant of the data model on a MoneyField of the response: the status is
  \<open>not_found\<close> exactly when the value is \<open>null\<close>.
\<close>

definition money_field_consistent :: "js \<Rightarrow> bool" where
  "money_field_consistent m =
     ((jget m ''status'' = Str ''not_found'') = (jget m ''value'' = Null))"

section \<open>Merging the email-derived and the proposal-derived record\<close>

text \<open>
  Modelled from the spec: the merge of the two extracted records. It is done by the
  extraction microservice (\<open>microservice/main.py\<close> and \<open>script/extract_hotel_quotes.py\<close> in
  the project structure), which is not among the sources; \<open>route.ts\<close> only forwards the
  inputs and reshapes the merged result. The definitions follow the precedence rule of
  section 4.1 of the specification. A partial record gives each field name a value, or
  \<open>None\<close> for \<open>not_found\<close>; a record that was not supplied has no field.
\<close>

type_synonym 'v partial_record = "string \<Rightarrow> 'v option"

definition field_of :: "'v partial_record option \<Rightarrow> string \<Rightarrow> 'v option" where
  "field_of r f = (case r of None \<Rightarrow> None | Some given \<Rightarrow> given f)"

definition merge_field :: "'v option \<Rightarrow> 'v option \<Rightarrow> 'v option" where
  "merge_field email_field proposal_field =
     (case proposal_field of
        Some v \<Rightarrow> Some v
      | None \<Rightarrow> (case email_field of Some w \<Rightarrow> Some w | None \<Rightarrow> None))"

definition merge_records ::
  "'v partial_record option \<Rightarrow> 'v partial_record option \<Rightarrow> 'v partial_record" where
  "merge_records email proposal = (\<lambda>f. merge_field (field_of email f) (field_of proposal f))"

section \<open>Example inputs\<close>

definition extras_example :: Extras where
  "extras_example =
     \<lparr>room_nights = Some (double_of 240),
      nightly_rate = Some (double_of 192),
      tax_rate_pct = Some (double_of (845 / 100)),
      service_rate_pct = Some (double_of 24),
      fnb_minimum = Some (double_of 10000),
      proposal_url = None,
      guestroom_base = None,
      guestroom_taxes_fees = None,
      estimated_fnb_gross = Some (double_of (134478 / 10)),
      effective_value_offsets = []\<rparr>"

definition quote_example :: QuoteData where
  "quote_example =
     \<lparr>total_quote = \<lparr>status = Not_found, value = None, currency = ''USD'',
                      provenance_snippet = None, notes = ''''\<rparr>,
      guestroom_total = \<lparr>status = Explicit, value = Some (double_of 50000), currency = ''USD'',
                          provenance_snippet = None, notes = ''''\<rparr>,
      meeting_room_total = \<lparr>status = Conditional, value = Some (double_of 5000), currency = ''USD'',
                             provenance_snippet = Some ''Rental waived if the F&B minimum is met'',
                             notes = ''waiver''\<rparr>,
      fnb_total = \<lparr>status = Not_found, value = None, currency = ''USD'',
                    provenance_snippet = None, notes = ''''\<rparr>,
      extras = Some extras_example,
      property = None, program = None, concessions = None, policies = None, sources = None\<rparr>"

text \<open>The same record with no gross F&B figure.\<close>

definition quote_without_gross :: QuoteData where
  "quote_without_gross =
     quote_example\<lparr>extras := Some (extras_example\<lparr>estimated_fnb_gross := None\<rparr>)\<rparr>"

text \<open>A payload whose only MoneyField has a status and no amount.\<close>

definition payload_status_only :: js where
  "payload_status_only = Obj [(''total_quote'', Obj [(''status'', Str ''explicit'')])]"

text \<open>One extraction result in the old, nested format and in the new, flat one.\<close>

definition payload_old :: js where
  "payload_old =
     Obj [(''totals'', Obj
             [(''total_quote'', Obj
                 [(''status'', Str ''derived''), (''amount'', Num (Finite False 55000)),
                  (''notes'', Str ''guestrooms + meeting rooms'')]),
              (''guestroom_total'', Obj
                 [(''status'', Str ''explicit''), (''value'', Num (Finite False 50000)),
                  (''currency'', Str ''EUR''), (''provenance_snippet'', Str ''Rooms: 50,000'')]),
              (''meeting_room_total'', Obj
                 [(''status'', Str ''conditional''), (''value'', Num (Finite False 5000)),
                  (''notes'', Str ''waived with F&B minimum'')])]),
          (''extras'', Obj
             [(''room_nights'', Num (Finite False 240)),
              (''nightly_rate'', Num (Finite False 192)),
              (''service_rate_pct'', Num (Finite False 24)),
              (''fnb_minimum'', Num (Finite False 0)),
              (''proposal_url'', Str ''https://example.com/proposal'')]),
          (''concessions'', Arr [Str ''Waived meeting room rental with F&B minimum'']),
          (''sources'', Arr [Str ''proposal'', Str ''email''])]"

definition payload_new :: js where
  "payload_new =
     Obj [(''total_quote'', Obj
             [(''status'', Str ''derived''), (''amount'', Num (Finite False 55000)),
              (''notes'', Str ''guestrooms + meeting rooms'')]),
          (''guestroom_total'', Obj
             [(''status'', Str ''explicit''), (''value'', Num (Finite False 50000)),
              (''currency'', Str ''EUR''), (''provenance_snippet'', Str ''Rooms: 50,000'')]),
          (''meeting_room_total'', Obj
             [(''status'', Str ''conditional''), (''value'', Num (Finite False 5000)),
              (''notes'', Str ''waived with F&B minimum'')]),
          (''room_nights'', Num (Finite False 240)),
          (''nightly_rate'', Num (Finite False 192)),
          (''service_rate_pct'', Num (Finite False 24)),
          (''fnb_minimum'', Num (Finite False 0)),
          (''proposal_url'', Str ''https://example.com/proposal''),
          (''concessions'', Arr [Str ''Waived meeting room rental with F&B minimum'']),
          (''sources'', Arr [Str ''proposal'', Str ''email''])]"

text \<open>The record of defaults: what the route makes of a payload with no field it knows.\<close>

definition default_record :: js where
  "default_record =
     Obj [(''total_quote'', Obj [(''status'', Str ''not_found''), (''value'', Null),
             (''currency'', Str ''USD''), (''provenance_snippet'', Null), (''notes'', Str '''')]),
          (''guestroom_total'', Obj [(''status'', Str ''not_found''), (''value'', Null),
             (''currency'', Str ''USD''), (''provenance_snippet'', Null), (''notes'', Str '''')]),
          (''meeting_room_total'', Obj [(''status'', Str ''not_found''), (''value'', Null),
             (''currency'', Str ''USD''), (''provenance_snippet'', Null), (''notes'', Str '''')]),
          (''fnb_total'', Obj [(''status'', Str ''not_found''), (''value'', Null),
             (''currency'', Str ''USD''), (''provenance_snippet'', Null), (''notes'', Str '''')]),
          (''extras'', Obj
             [(''room_nights'', Null), (''nightly_rate'', Null), (''tax_rate_pct'', Null),
              (''service_rate_pct'', Null), (''fnb_minimum'', Null), (''proposal_url'', Null),
              (''guestroom_base'', Null), (''guestroom_taxes_fees'', Null),
              (''estimated_fnb_gross'', Null), (''effective_value_offsets'', Arr [])]),
          (''property'', Obj []), (''program'', Obj []), (''concessions'', Arr []),
          (''policies'', Obj []), (''sources'', Arr [])]"

text \<open>An unreachable microservice, and one that reports a failure without a message.\<close>

definition service_down :: "FormData \<Rightarrow> fetch_result" where
  "service_down form = Rejected"


text \<open>A microservice that reports success and sends no \<open>data\<close>.\<close>

definition service_without_data :: "FormData \<Rightarrow> fetch_result" where
  "service_without_data form = Response True 200 [] (Some (Obj [(''success'', Bool True)]))"

definition email_only :: FormData where
  "email_only = [(''email_content'', Text ''Rooms: 50,000'')]"

section \<open>Auxiliary facts\<close>

subsection \<open>The number model\<close>

text \<open>
  Checks of the model against the format it stands for: \<open>floor_log2\<close> is the binary
  exponent, \<open>round_half_even\<close> gives a nearest integer, and every integer below
  \<open>2 ^ 53\<close> is a double.
\<close>

lemma bit_length_nonneg: "0 \<le> bit_length n"
proof (induction n rule: bit_length.induct)
  case (1 n)
  then show ?case
    by (cases "n \<le> 0") (simp_all add: bit_length.simps [of n])
qed

lemma bit_length_bounds:
  "0 < n \<Longrightarrow> 2 ^ nat (bit_length n - 1) \<le> n \<and> n < 2 ^ nat (bit_length n)"
proof (induction n rule: bit_length.induct)
  case (1 n)
  show ?case
  proof (cases "n div 2 = 0")
    case True
    with "1.prems" have "n = 1"
      by presburger
    then show ?thesis
      by (simp add: bit_length.simps [of 1] bit_length.simps [of 0])
  next
    case False
    with "1.prems" have pos: "0 < n div 2"
      by presburger
    from "1.prems" have unfold: "bit_length n = 1 + bit_length (n div 2)"
      by (simp add: bit_length.simps [of n])
    from "1.IH" "1.prems" pos
    have ih: "2 ^ nat (bit_length (n div 2) - 1) \<le> n div 2"
      "n div 2 < 2 ^ nat (bit_length (n div 2))"
      by simp_all
    from pos have k: "0 < bit_length (n div 2)"
      using bit_length_nonneg [of "n div 2 div 2"]
      by (simp add: bit_length.simps [of "n div 2"])
    then have nat_k: "nat (bit_length (n div 2)) = Suc (nat (bit_length (n div 2) - 1))"
      by simp
    have "2 ^ nat (bit_length (n div 2)) \<le> n"
    proof -
      have "(2::int) ^ nat (bit_length (n div 2)) = 2 * 2 ^ nat (bit_length (n div 2) - 1)"
        by (subst nat_k) simp
      also have "\<dots> \<le> 2 * (n div 2)"
        using ih(1) by simp
      also have "\<dots> \<le> n"
        by presburger
      finally show ?thesis .
    qed
    moreover have "n < 2 ^ nat (1 + bit_length (n div 2))"
    proof -
      have "nat (1 + bit_length (n div 2)) = Suc (nat (bit_length (n div 2)))"
        using k by simp
      moreover have "n < 2 * 2 ^ nat (bit_length (n div 2))"
        using ih(2) by presburger
      ultimately show ?thesis
        by simp
    qed
    ultimately show ?thesis
      by (simp add: unfold)
  qed
qed


lemma round_half_even_of_int: "round_half_even (of_int m) = m"
  by (simp add: round_half_even_def)

lemma pow2_nonpos: "e \<le> 0 \<Longrightarrow> pow2 e = 1 / 2 ^ nat (- e)"
  by (cases "e = 0") (simp_all add: pow2_def)

lemma round_mag_of_int:
  assumes "0 < n" and "n < 2 ^ 53"
  shows "round_mag (of_int n) = of_int n"
proof -
  let ?k = "bit_length n"
  from bit_length_bounds [OF assms(1)]
  have lower: "2 ^ nat (?k - 1) \<le> n" and upper: "n < 2 ^ nat ?k"
    by simp_all
  have "nat (?k - 1) < 53"
  proof (rule power_less_imp_less_exp)
    show "(1::int) < 2"
      by simp
    from lower assms(2) show "(2::int) ^ nat (?k - 1) < 2 ^ 53"
      by (rule le_less_trans)
  qed
  then have k: "?k \<le> 53"
    by simp
  from assms(1) have one: "(1::rat) \<le> of_int n"
    by simp
  have log: "floor_log2 (of_int n) = ?k - 1"
    using one by (simp add: floor_log2_def)
  have e: "max (floor_log2 (of_int n :: rat) - 52) (- 1074) = ?k - 53"
    using bit_length_nonneg [of n] by (simp add: log)
  have p: "pow2 (?k - 53) = 1 / 2 ^ nat (53 - ?k)"
    using k pow2_nonpos [of "?k - 53"] by simp
  have "(of_int n :: rat) / pow2 (?k - 53) = of_int (n * 2 ^ nat (53 - ?k))"
    by (simp add: p)
  then have "round_half_even ((of_int n :: rat) / pow2 (?k - 53)) = n * 2 ^ nat (53 - ?k)"
    by (simp only: round_half_even_of_int)
  then show ?thesis
    using assms(1) by (simp add: round_mag_def e p Let_def)
qed

lemma double_of_int:
  assumes "0 \<le> n" and "n < 2 ^ 53"
  shows "double_of (of_int n) = Finite False (of_int n)"
proof (cases "n = 0")
  case True
  then show ?thesis
    by (simp add: double_of_def pack_def round_mag_def pow2_def)
next
  case False
  with assms have n: "0 < n"
    by simp
  have "(of_int n :: rat) < of_int (2 ^ 1024)"
    using assms(2) by (simp only: of_int_less_iff) simp
  then have "\<not> pow2 1024 \<le> (of_int n :: rat)"
    by (simp add: pow2_def)
  with n show ?thesis
    by (simp add: double_of_def pack_def round_mag_of_int [OF n assms(2)])
qed

lemma double_of_examples:
  "double_of 0 = Finite False 0"
  "double_of 100 = Finite False 100"
  "double_of 50000 = Finite False 50000"
  using double_of_int [of 0] double_of_int [of 100] double_of_int [of 50000]
  by simp_all


lemma floor_log2_bounds:
  assumes "0 < a"
  shows "pow2 (floor_log2 a) \<le> a \<and> a < pow2 (floor_log2 a + 1)"
proof (cases "1 \<le> a")
  case True
  let ?n = "\<lfloor>a\<rfloor>"
  let ?k = "bit_length ?n"
  from True have n: "0 < ?n"
    by simp
  from bit_length_bounds [OF n]
  have lower: "2 ^ nat (?k - 1) \<le> ?n" and upper: "?n < 2 ^ nat ?k"
    by simp_all
  have k: "0 < ?k"
    using n bit_length_nonneg [of "?n div 2"] by (simp add: bit_length.simps [of ?n])
  have "(of_int (2 ^ nat (?k - 1)) :: rat) \<le> of_int ?n"
    using lower by (simp only: of_int_le_iff)
  also have "\<dots> \<le> a"
    by simp
  finally have a: "2 ^ nat (?k - 1) \<le> a"
    by simp
  from upper have "?n + 1 \<le> 2 ^ nat ?k"
    by simp
  then have "(of_int (?n + 1) :: rat) \<le> of_int (2 ^ nat ?k)"
    by (simp only: of_int_le_iff)
  moreover have "a < of_int (?n + 1)"
    by linarith
  ultimately have b: "a < 2 ^ nat ?k"
    by simp
  from True a b k show ?thesis
    by (simp add: floor_log2_def pow2_def)
next
  case False
  let ?c = "\<lceil>1 / a\<rceil>"
  let ?j = "bit_length (?c - 1)"
  from False assms have inv: "1 < 1 / a"
    by simp
  then have m: "0 < ?c - 1"
    by linarith
  from bit_length_bounds [OF m]
  have lower: "2 ^ nat (?j - 1) \<le> ?c - 1" and upper: "?c - 1 < 2 ^ nat ?j"
    by simp_all
  have j: "0 < ?j"
    using m bit_length_nonneg [of "(?c - 1) div 2"] by (simp add: bit_length.simps [of "?c - 1"])
  have "(of_int (2 ^ nat (?j - 1)) :: rat) \<le> of_int (?c - 1)"
    using lower by (simp only: of_int_le_iff)
  moreover have "of_int (?c - 1) < 1 / a"
    by linarith
  ultimately have "2 ^ nat (?j - 1) < 1 / a"
    by simp
  then have a_upper: "a < 1 / 2 ^ nat (?j - 1)"
    using assms by (simp add: field_simps)
  from upper have c: "?c \<le> 2 ^ nat ?j"
    by simp
  have "1 / a \<le> of_int ?c"
    by (rule le_of_int_ceiling)
  also from c have "(of_int ?c :: rat) \<le> of_int (2 ^ nat ?j)"
    by (simp only: of_int_le_iff)
  also have "(of_int (2 ^ nat ?j) :: rat) = 2 ^ nat ?j"
    by simp
  finally have "1 / a \<le> 2 ^ nat ?j" .
  then have a_lower: "1 / 2 ^ nat ?j \<le> a"
    using assms by (simp add: field_simps)
  have exp: "nat (?j - 1) = nat ?j - 1"
    by simp
  show ?thesis
  proof (cases "?j = 1")
    case True
    with False a_lower assms show ?thesis
      by (simp add: floor_log2_def pow2_def)
  next
    case False
    with j have "1 < ?j"
      by simp
    with \<open>\<not> 1 \<le> a\<close> a_lower a_upper show ?thesis
      by (simp add: floor_log2_def pow2_def nat_diff_distrib)
  qed
qed


lemma round_half_even_nearest:
  "\<bar>of_int (round_half_even s) - s\<bar> \<le> \<bar>of_int m - s\<bar>"
proof -
  define x :: rat where "x = of_int \<lfloor>s\<rfloor>"
  define y :: rat where "y = of_int m"
  define r :: rat where "r = of_int (round_half_even s)"
  have "m \<le> \<lfloor>s\<rfloor> \<or> \<lfloor>s\<rfloor> + 1 \<le> m"
    by linarith
  then have far: "y \<le> x \<or> x + 1 \<le> y"
    unfolding x_def y_def by (metis of_int_le_iff of_int_add of_int_1)
  have floor: "x \<le> s" "s < x + 1"
    unfolding x_def by linarith+
  have r: "r = (if s - x < 1 / 2 then x else if 1 / 2 < s - x then x + 1
                else if even \<lfloor>s\<rfloor> then x else x + 1)"
    by (simp add: r_def x_def round_half_even_def Let_def)
  have "\<bar>r - s\<bar> \<le> \<bar>y - s\<bar>"
    using far floor unfolding r by (simp split: if_splits) linarith+
  then show ?thesis
    by (simp add: r_def y_def)
qed

subsection \<open>Evaluating the number model\<close>

lemma floor_rat_numeral_div [simp]:
  "\<lfloor>numeral a / numeral b :: rat\<rfloor> = numeral a div numeral b"
  using floor_divide_of_int_eq [of "numeral a" "numeral b", where ?'a = rat] by simp

lemma ceiling_rat_numeral_div [simp]:
  "\<lceil>numeral a / numeral b :: rat\<rceil> = - (- numeral a div numeral b)"
  using ceiling_divide_eq_div [of "numeral a" "numeral b", where ?'a = rat] by simp

lemmas double_eval =
  double_of_def pack_def round_mag_def floor_log2_def pow2_def round_half_even_def
  bit_length.simps Let_def signed_def

text \<open>The model rounds as the hardware does: \<open>0.1 + 0.2\<close> is not \<open>0.3\<close>.\<close>

lemma tenth_plus_two_tenths:
  "num_add (double_of (1 / 10)) (double_of (2 / 10)) \<noteq> double_of (3 / 10)"
  by (simp add: double_eval)

subsection \<open>Reading the transformed record\<close>

lemma jget_assign_list:
  "jget (Obj (assign_list kvs k v)) k' = (if k' = k then v else jget (Obj kvs) k')"
  by (induction kvs) auto

lemma transformed_old_money:
  assumes "truthy (jget d ''totals'')" and "f \<in> set money_names"
  shows "jget (transformed_old d) f = money_field (jget (jget d ''totals'') f)"
  using assms by (auto simp add: transformed_old_def money_names_def money_field_def jor_def Let_def)

lemma transformed_new_money:
  assumes "f \<in> set money_names"
  shows "jget (transformed_new d) f = money_field (jget d f)"
  using assms by (auto simp add: transformed_new_def money_names_def money_field_def)

lemma transformed_old_extras:
  assumes "truthy (jget d ''extras'')" and "x \<in> set numeric_extras \<or> x = ''proposal_url''"
  shows "jget (jget (transformed_old d) ''extras'') x = jor (jget (jget d ''extras'') x) Null"
  using assms by (auto simp add: transformed_old_def numeric_extras_def jor_def Let_def)

lemma transformed_new_extras:
  assumes "x \<in> set numeric_extras \<or> x = ''proposal_url''"
  shows "jget (jget (transformed_new d) ''extras'') x = jor (jget d x) Null"
  using assms by (auto simp add: transformed_new_def numeric_extras_def)

lemma truthy_isOldFormat:
  "truthy (isOldFormat d) = (truthy (jget d ''totals'') \<and> truthy (jget d ''extras''))"
  by (simp add: isOldFormat_def jand_def)

lemma transformed_Obj:
  "\<exists>kvs. transformed_old d = Obj kvs" "\<exists>kvs. transformed_new d = Obj kvs"
  by (simp_all add: transformed_old_def transformed_new_def Let_def)

lemma jget_add_common_fields:
  assumes "k \<notin> set common_names"
  shows "jget (add_common_fields d (Obj kvs)) k = jget (Obj kvs) k"
  using assms
  by (simp add: add_common_fields_def Let_def common_names_def jget_assign_list del: jget.simps)

lemma jget_transformed:
  assumes "transformMicroserviceResponse d = Inr t" and "k \<notin> set common_names"
  shows "jget t k = jget (if truthy (isOldFormat d) then transformed_old d else transformed_new d) k"
proof -
  from assms(1) have t: "t = add_common_fields d
      (if truthy (isOldFormat d) then transformed_old d else transformed_new d)"
    by (simp add: transformMicroserviceResponse_def split: if_splits)
  obtain kvs where "(if truthy (isOldFormat d) then transformed_old d else transformed_new d) = Obj kvs"
    using transformed_Obj [of d] by (cases "truthy (isOldFormat d)") auto
  with t assms(2) show ?thesis
    by (simp add: jget_add_common_fields del: jget.simps)
qed

lemma transform_money:
  assumes "transformMicroserviceResponse d = Inr t" and "f \<in> set money_names"
  shows "jget t f =
     money_field (if truthy (isOldFormat d) then jget (jget d ''totals'') f else jget d f)"
proof -
  from assms(2) have "f \<notin> set common_names"
    by (auto simp add: money_names_def common_names_def)
  with assms show ?thesis
    by (simp add: jget_transformed truthy_isOldFormat transformed_old_money transformed_new_money
        del: jget.simps)
qed

lemma transform_extras:
  assumes "transformMicroserviceResponse d = Inr t"
    and "x \<in> set numeric_extras \<or> x = ''proposal_url''"
  shows "jget (jget t ''extras'') x =
     jor (if truthy (isOldFormat d) then jget (jget d ''extras'') x else jget d x) Null"
proof -
  have "''extras'' \<notin> set common_names"
    by (simp add: common_names_def)
  with assms show ?thesis
    by (simp add: jget_transformed truthy_isOldFormat transformed_old_extras transformed_new_extras
        del: jget.simps)
qed

lemma money_field_reads:
  "jget (money_field u) ''status'' = jor (jget_opt u ''status'') (Str ''not_found'')"
  "jget (money_field u) ''value'' = jnc (jnc (jget_opt u ''amount'') (jget_opt u ''value'')) Null"
  "jget (money_field u) ''currency'' = jor (jget_opt u ''currency'') (Str ''USD'')"
  "jget (money_field u) ''provenance_snippet'' = jor (jget_opt u ''provenance_snippet'') Null"
  "jget (money_field u) ''notes'' = jor (jget_opt u ''notes'') (Str '''')"
  by (simp_all add: money_field_def)

lemma jnc_Null_iff: "jnc (jnc a b) Null = Null \<longleftrightarrow> nullish a \<and> nullish b"
  by (cases a; cases b) (simp_all add: jnc_def)

lemma jor_not_found_iff:
  "jor a (Str ''not_found'') = Str ''not_found'' \<longleftrightarrow> \<not> truthy a \<or> a = Str ''not_found''"
  by (auto simp add: jor_def)

lemma transform_payload_new:
  "\<exists>t. transformMicroserviceResponse payload_new = Inr t"
  by (simp add: transformMicroserviceResponse_def payload_new_def)

lemma transform_payload_old:
  "\<exists>t. transformMicroserviceResponse payload_old = Inr t"
  by (simp add: transformMicroserviceResponse_def payload_old_def)

subsection \<open>The paths through the handler\<close>




section \<open>The claims\<close>

subsection \<open>The displayed total quote\<close>

text \<open>
  C1, as stated, fails: the page never sets a status. For a record whose \<open>total_quote\<close>
  is \<open>not_found\<close>, with guestrooms 50000, meeting rooms 5000 and an estimated F&B gross of
  13447.8, the Total Quote card shows the computed 68447.8 under the record's own status
  \<open>not_found\<close>, not under \<open>derived\<close>.
\<close>

theorem total_quote_status_not_derived:
  "status (total_quote quote_example) = Not_found
   \<and> value (total_quote quote_example) = None
   \<and> card_value (total_quote_card quote_example) = Some (double_of (684478 / 10))
   \<and> card_status (total_quote_card quote_example) = Not_found
   \<and> card_status (total_quote_card quote_example) \<noteq> Derived"
  by (simp add: quote_example_def extras_example_def total_quote_card_def getCalculatedTotalQuote_def
      or_number_def double_eval)

text \<open>
  C1, amended: for every record, \<open>getCalculatedTotalQuote\<close> is the sum, in double
  arithmetic and in this order, of the guestroom total, the meeting-room total and the
  F&B figure, where the F&B figure is \<open>estimated_fnb_gross\<close> when that is present and not
  zero and \<open>fnb_total\<close> otherwise, and an addend that is absent (or zero, or NaN) counts as
  0. The sum does not depend on the record's own \<open>total_quote\<close>. The Total Quote card
  shows this sum with the status of the record's \<open>total_quote\<close>, unchanged. For 50000,
  5000 and 13447.8 the sum is 68447.8.
\<close>

theorem calculated_total_quote:
  "getCalculatedTotalQuote (Some q) =
     Some (num_add
            (num_add (or_zero (value (guestroom_total q))) (or_zero (value (meeting_room_total q))))
            (or_zero (or_number (case extras q of None \<Rightarrow> None | Some e \<Rightarrow> estimated_fnb_gross e)
                        (value (fnb_total q)))))
   \<and> (value (guestroom_total q) = Some g \<and> num_truthy g
        \<and> value (meeting_room_total q) = Some m \<and> num_truthy m
        \<and> extras q = Some e \<and> estimated_fnb_gross e = Some f \<and> num_truthy f
      \<longrightarrow> getCalculatedTotalQuote (Some q) = Some (num_add (num_add g m) f))
   \<and> (value (guestroom_total q) = Some g \<and> num_truthy g
        \<and> value (meeting_room_total q) = Some m \<and> num_truthy m
        \<and> extras q = Some e \<and> \<not> number_provided (estimated_fnb_gross e)
        \<and> value (fnb_total q) = Some f \<and> num_truthy f
      \<longrightarrow> getCalculatedTotalQuote (Some q) = Some (num_add (num_add g m) f))
   \<and> (value (guestroom_total q) = None \<and> value (meeting_room_total q) = None
        \<and> extras q = Some e \<and> estimated_fnb_gross e = None \<and> value (fnb_total q) = None
      \<longrightarrow> getCalculatedTotalQuote (Some q) = Some (Finite False 0))
   \<and> getCalculatedTotalQuote (Some (q\<lparr>total_quote := t\<rparr>)) = getCalculatedTotalQuote (Some q)
   \<and> card_value (total_quote_card q) = getCalculatedTotalQuote (Some q)
   \<and> card_status (total_quote_card q) = status (total_quote q)
   \<and> (value (guestroom_total q) = Some (double_of 50000)
        \<and> value (meeting_room_total q) = Some (double_of 5000)
        \<and> extras q = Some e \<and> estimated_fnb_gross e = Some (double_of (134478 / 10))
      \<longrightarrow> getCalculatedTotalQuote (Some q) = Some (double_of (684478 / 10)))"
proof -
  have sum: "getCalculatedTotalQuote (Some q) =
     Some (num_add
            (num_add (or_zero (value (guestroom_total q))) (or_zero (value (meeting_room_total q))))
            (or_zero (or_number (case extras q of None \<Rightarrow> None | Some e \<Rightarrow> estimated_fnb_gross e)
                        (value (fnb_total q)))))"
    by (simp add: getCalculatedTotalQuote_def)
  have zero: "num_add (num_add (Finite False 0) (Finite False 0)) (Finite False 0) = Finite False 0"
    by (simp add: signed_def)
  have example:
    "num_add (num_add (double_of 50000) (double_of 5000)) (double_of (134478 / 10))
       = double_of (684478 / 10)"
    "num_truthy (double_of 50000)" "num_truthy (double_of 5000)"
    "num_truthy (double_of (134478 / 10))"
    by (simp_all add: double_eval)
  show ?thesis
    unfolding sum using zero example
    by (auto simp add: total_quote_card_def getCalculatedTotalQuote_def or_number_def)
qed

theorem calculated_total_quote_witness:
  "value (guestroom_total quote_example) = Some (double_of 50000)
   \<and> value (meeting_room_total quote_example) = Some (double_of 5000)
   \<and> extras quote_example = Some extras_example
   \<and> estimated_fnb_gross extras_example = Some (double_of (134478 / 10))
   \<and> getCalculatedTotalQuote (Some quote_example) = Some (double_of (684478 / 10))
   \<and> card_status (total_quote_card quote_example) = Not_found"
proof -
  have given:
    "value (guestroom_total quote_example) = Some (double_of 50000)
     \<and> value (meeting_room_total quote_example) = Some (double_of 5000)
     \<and> extras quote_example = Some extras_example
     \<and> estimated_fnb_gross extras_example = Some (double_of (134478 / 10))"
    by (simp add: quote_example_def extras_example_def)
  note fact = calculated_total_quote
    [where q = quote_example and e = extras_example and t = "total_quote quote_example"
       and g = "double_of 50000" and m = "double_of 5000" and f = "double_of (134478 / 10)"]
  from fact given
  have "getCalculatedTotalQuote (Some quote_example) = Some (double_of (684478 / 10))"
    by blast
  moreover
  from fact
  have "card_status (total_quote_card quote_example) = status (total_quote quote_example)"
    by blast
  then have "card_status (total_quote_card quote_example) = Not_found"
    by (simp add: quote_example_def)
  ultimately show ?thesis
    using given by simp
qed

subsection \<open>The F&B breakdown\<close>

text \<open>
  C2, as stated, fails: with an F&B minimum of 10000, a service rate of 24 and a tax rate
  of 8.45 known and no gross F&B figure in the record, the page estimates nothing. The
  breakdown is absent and the F&B card shows \<open>fnb_total\<close>, here no value at all.
\<close>

theorem no_gross_no_estimate:
  "(case extras quote_without_gross of
      None \<Rightarrow> False
    | Some e \<Rightarrow> fnb_minimum e = Some (double_of 10000)
               \<and> service_rate_pct e = Some (double_of 24)
               \<and> tax_rate_pct e = Some (double_of (845 / 100))
               \<and> estimated_fnb_gross e = None)
   \<and> getFnbBreakdown (Some quote_without_gross) = None
   \<and> card_value (fnb_card quote_without_gross) = None
   \<and> card_value (fnb_card quote_without_gross) \<noteq> Some (double_of (134478 / 10))"
  by (simp add: quote_without_gross_def quote_example_def extras_example_def getFnbBreakdown_def
      fnb_card_def or_number_def)

text \<open>
  C2, amended: when the record carries a gross F&B figure that is not zero,
  \<open>getFnbBreakdown\<close> shows the F&B minimum, the service charge
  \<open>fnb_minimum * service_rate_pct / 100\<close>, the tax on the service charge
  \<open>(fnb_minimum * service_rate_pct / 100) * tax_rate_pct / 100\<close> and the tax on F&B
  \<open>fnb_minimum * tax_rate_pct / 100\<close>, each computed in double arithmetic in this order
  with an absent operand counting as 0, and as the total the record's own
  \<open>estimated_fnb_gross\<close>, which it does not compute. When the record carries no gross
  figure (or zero) there is no breakdown. For 10000, 24 and 8.45 the three components are
  2400, 202.8 and 845, and with the minimum they add up to 13447.8.
\<close>

theorem fnb_breakdown:
  "(extras q = Some e \<and> estimated_fnb_gross e = Some gross \<and> num_truthy gross \<longrightarrow>
      getFnbBreakdown (Some q) = Some
        [Lit ''F&B Minimum: '', Money (or_zero (fnb_minimum e)),
         Lit ''; Service Charge ('', Plain (or_zero (service_rate_pct e)), Lit ''%): '',
         Money (num_div (num_mul (or_zero (fnb_minimum e)) (or_zero (service_rate_pct e)))
                  (double_of 100)),
         Lit ''; Tax on Service Charge ('', Plain (or_zero (tax_rate_pct e)), Lit ''%): '',
         Money (num_div
                  (num_mul
                     (num_div (num_mul (or_zero (fnb_minimum e)) (or_zero (service_rate_pct e)))
                        (double_of 100))
                     (or_zero (tax_rate_pct e)))
                  (double_of 100)),
         Lit ''; Tax on F&B ('', Plain (or_zero (tax_rate_pct e)), Lit ''%): '',
         Money (num_div (num_mul (or_zero (fnb_minimum e)) (or_zero (tax_rate_pct e)))
                  (double_of 100)),
         Lit ''; Total: '', Money gross])
   \<and> (extras q = Some e \<and> \<not> number_provided (estimated_fnb_gross e) \<longrightarrow>
        getFnbBreakdown (Some q) = None)
   \<and> (extras q = Some e \<and> estimated_fnb_gross e = Some gross \<and> num_truthy gross
        \<and> fnb_minimum e = Some (double_of 10000) \<and> service_rate_pct e = Some (double_of 24)
        \<and> tax_rate_pct e = Some (double_of (845 / 100)) \<longrightarrow>
        getFnbBreakdown (Some q) = Some
          [Lit ''F&B Minimum: '', Money (double_of 10000),
           Lit ''; Service Charge ('', Plain (double_of 24), Lit ''%): '',
           Money (double_of 2400),
           Lit ''; Tax on Service Charge ('', Plain (double_of (845 / 100)), Lit ''%): '',
           Money (double_of (2028 / 10)),
           Lit ''; Tax on F&B ('', Plain (double_of (845 / 100)), Lit ''%): '',
           Money (double_of 845),
           Lit ''; Total: '', Money gross])
   \<and> num_add (num_add (num_add (double_of 10000) (double_of 2400)) (double_of (2028 / 10)))
        (double_of 845)
      = double_of (134478 / 10)"
proof (intro conjI impI)
  assume "extras q = Some e \<and> estimated_fnb_gross e = Some gross \<and> num_truthy gross"
  then show "getFnbBreakdown (Some q) = Some
        [Lit ''F&B Minimum: '', Money (or_zero (fnb_minimum e)),
         Lit ''; Service Charge ('', Plain (or_zero (service_rate_pct e)), Lit ''%): '',
         Money (num_div (num_mul (or_zero (fnb_minimum e)) (or_zero (service_rate_pct e)))
                  (double_of 100)),
         Lit ''; Tax on Service Charge ('', Plain (or_zero (tax_rate_pct e)), Lit ''%): '',
         Money (num_div
                  (num_mul
                     (num_div (num_mul (or_zero (fnb_minimum e)) (or_zero (service_rate_pct e)))
                        (double_of 100))
                     (or_zero (tax_rate_pct e)))
                  (double_of 100)),
         Lit ''; Tax on F&B ('', Plain (or_zero (tax_rate_pct e)), Lit ''%): '',
         Money (num_div (num_mul (or_zero (fnb_minimum e)) (or_zero (tax_rate_pct e)))
                  (double_of 100)),
         Lit ''; Total: '', Money gross]"
    by (simp add: getFnbBreakdown_def)
next
  assume "extras q = Some e \<and> \<not> number_provided (estimated_fnb_gross e)"
  then show "getFnbBreakdown (Some q) = None"
    by (cases "estimated_fnb_gross e") (simp_all add: getFnbBreakdown_def)
next
  assume "extras q = Some e \<and> estimated_fnb_gross e = Some gross \<and> num_truthy gross
        \<and> fnb_minimum e = Some (double_of 10000) \<and> service_rate_pct e = Some (double_of 24)
        \<and> tax_rate_pct e = Some (double_of (845 / 100))"
  then show "getFnbBreakdown (Some q) = Some
          [Lit ''F&B Minimum: '', Money (double_of 10000),
           Lit ''; Service Charge ('', Plain (double_of 24), Lit ''%): '',
           Money (double_of 2400),
           Lit ''; Tax on Service Charge ('', Plain (double_of (845 / 100)), Lit ''%): '',
           Money (double_of (2028 / 10)),
           Lit ''; Tax on F&B ('', Plain (double_of (845 / 100)), Lit ''%): '',
           Money (double_of 845),
           Lit ''; Total: '', Money gross]"
    by (simp add: getFnbBreakdown_def double_eval)
next
  show "num_add (num_add (num_add (double_of 10000) (double_of 2400)) (double_of (2028 / 10)))
        (double_of 845) = double_of (134478 / 10)"
    by (simp add: double_eval)
qed

theorem fnb_breakdown_witness:
  "extras quote_example = Some extras_example
   \<and> estimated_fnb_gross extras_example = Some (double_of (134478 / 10))
   \<and> num_truthy (double_of (134478 / 10))
   \<and> fnb_minimum extras_example = Some (double_of 10000)
   \<and> service_rate_pct extras_example = Some (double_of 24)
   \<and> tax_rate_pct extras_example = Some (double_of (845 / 100))
   \<and> getFnbBreakdown (Some quote_example) = Some
        [Lit ''F&B Minimum: '', Money (double_of 10000),
         Lit ''; Service Charge ('', Plain (double_of 24), Lit ''%): '',
         Money (double_of 2400),
         Lit ''; Tax on Service Charge ('', Plain (double_of (845 / 100)), Lit ''%): '',
         Money (double_of (2028 / 10)),
         Lit ''; Tax on F&B ('', Plain (double_of (845 / 100)), Lit ''%): '',
         Money (double_of 845),
         Lit ''; Total: '', Money (double_of (134478 / 10))]"
proof -
  have truthy_gross: "num_truthy (double_of (134478 / 10))"
    by (simp add: double_eval)
  have given:
    "extras quote_example = Some extras_example
     \<and> estimated_fnb_gross extras_example = Some (double_of (134478 / 10))
     \<and> num_truthy (double_of (134478 / 10))
     \<and> fnb_minimum extras_example = Some (double_of 10000)
     \<and> service_rate_pct extras_example = Some (double_of 24)
     \<and> tax_rate_pct extras_example = Some (double_of (845 / 100))"
    using truthy_gross by (simp add: quote_example_def extras_example_def)
  from fnb_breakdown
    [where q = quote_example and e = extras_example and gross = "double_of (134478 / 10)"]
  have "extras quote_example = Some extras_example
        \<and> estimated_fnb_gross extras_example = Some (double_of (134478 / 10))
        \<and> num_truthy (double_of (134478 / 10))
        \<and> fnb_minimum extras_example = Some (double_of 10000)
        \<and> service_rate_pct extras_example = Some (double_of 24)
        \<and> tax_rate_pct extras_example = Some (double_of (845 / 100)) \<longrightarrow>
        getFnbBreakdown (Some quote_example) = Some
          [Lit ''F&B Minimum: '', Money (double_of 10000),
           Lit ''; Service Charge ('', Plain (double_of 24), Lit ''%): '',
           Money (double_of 2400),
           Lit ''; Tax on Service Charge ('', Plain (double_of (845 / 100)), Lit ''%): '',
           Money (double_of (2028 / 10)),
           Lit ''; Tax on F&B ('', Plain (double_of (845 / 100)), Lit ''%): '',
           Money (double_of 845),
           Lit ''; Total: '', Money (double_of (134478 / 10))]"
    by (rule conjunct1 [OF conjunct2 [OF conjunct2]])
  with given show ?thesis
    by blast
qed

subsection \<open>The MoneyFields of the transformed record\<close>

text \<open>
  C4, as stated, fails: \<open>transformMicroserviceResponse\<close> copies the status and the value
  of a MoneyField independently and checks neither against the other. A payload whose
  \<open>total_quote\<close> has the status \<open>explicit\<close> and no amount comes out with the status
  \<open>explicit\<close> and the value \<open>null\<close>.
\<close>

theorem status_without_value:
  "(case transformMicroserviceResponse payload_status_only of
      Inl e \<Rightarrow> False
    | Inr t \<Rightarrow> jget (jget t ''total_quote'') ''status'' = Str ''explicit''
             \<and> jget (jget t ''total_quote'') ''value'' = Null
             \<and> \<not> money_field_consistent (jget t ''total_quote''))"
  by (simp add: payload_status_only_def transformMicroserviceResponse_def isOldFormat_def jand_def
      transformed_new_def add_common_fields_def jor_def jnc_def jget_opt_def
      money_field_consistent_def)

text \<open>
  C4, amended: for every payload that is not \<open>null\<close>, and each of the four MoneyFields in
  either format, the transformed status is the upstream status, or \<open>not_found\<close> when that
  is missing or falsy, and the transformed value is the upstream \<open>amount\<close>, else the
  upstream \<open>value\<close>, else \<open>null\<close>. So the transformed field has a \<open>not_found\<close> status
  exactly with a \<open>null\<close> value if and only if the upstream field does (read in this
  way); the route passes the invariant on and does not establish it. A field that is
  absent upstream does satisfy it.
\<close>

theorem money_field_consistency_preserved:
  assumes "transformMicroserviceResponse d = Inr t"
    and "f \<in> set money_names"
    and "u = (if truthy (isOldFormat d) then jget (jget d ''totals'') f else jget d f)"
  shows "jget (jget t f) ''status'' = jor (jget_opt u ''status'') (Str ''not_found'')
    \<and> jget (jget t f) ''value'' = jnc (jnc (jget_opt u ''amount'') (jget_opt u ''value'')) Null
    \<and> (money_field_consistent (jget t f) \<longleftrightarrow>
         ((\<not> truthy (jget_opt u ''status'') \<or> jget_opt u ''status'' = Str ''not_found'')
          \<longleftrightarrow> (nullish (jget_opt u ''amount'') \<and> nullish (jget_opt u ''value''))))
    \<and> (nullish u \<longrightarrow> money_field_consistent (jget t f))"
  using transform_money [OF assms(1,2)] assms(3)
  by (auto simp add: money_field_reads money_field_consistent_def jnc_Null_iff jor_not_found_iff
      jget_opt_def simp del: jget.simps)

theorem money_field_consistency_preserved_witness:
  "(case transformMicroserviceResponse payload_old of
      Inl e \<Rightarrow> False
    | Inr t \<Rightarrow> truthy (isOldFormat payload_old)
             \<and> ''guestroom_total'' \<in> set money_names
             \<and> jget (jget t ''guestroom_total'') ''status'' = Str ''explicit''
             \<and> jget (jget t ''guestroom_total'') ''value'' = Num (Finite False 50000)
             \<and> money_field_consistent (jget t ''guestroom_total''))"
proof -
  obtain t where t: "transformMicroserviceResponse payload_old = Inr t"
    using transform_payload_old by blast
  have f: "''guestroom_total'' \<in> set money_names"
    by (simp add: money_names_def)
  have old: "truthy (isOldFormat payload_old)"
    by (simp add: truthy_isOldFormat payload_old_def)
  have u: "jget (jget payload_old ''totals'') ''guestroom_total'' =
      Obj [(''status'', Str ''explicit''), (''value'', Num (Finite False 50000)),
           (''currency'', Str ''EUR''), (''provenance_snippet'', Str ''Rooms: 50,000'')]"
    by (simp add: payload_old_def)
  from money_field_consistency_preserved [OF t f refl] old
  have "jget (jget t ''guestroom_total'') ''status'' = Str ''explicit''
      \<and> jget (jget t ''guestroom_total'') ''value'' = Num (Finite False 50000)
      \<and> money_field_consistent (jget t ''guestroom_total'')"
    unfolding u by (simp add: jget_opt_def jor_def jnc_def)
  with t f old show ?thesis
    by simp
qed

subsection \<open>Defaults of a MoneyField\<close>

text \<open>
  C9, as stated, fails for the payload that is \<open>undefined\<close> or \<open>null\<close>, which the handler
  passes on when the microservice reports success without \<open>data\<close>: every upstream field is
  absent there, and the function throws on its first read instead of giving defaults; the
  handler answers with status 500.
\<close>

theorem absent_payload_has_no_defaults:
  "jget (Obj [(''success'', Bool True)]) ''data'' = Undefined
   \<and> transformMicroserviceResponse Undefined = Inl TypeError
   \<and> transformMicroserviceResponse Null = Inl TypeError
   \<and> handle_result (Obj [(''success'', Bool True)]) = Inl TypeError
   \<and> http_status (response (POST (Some email_only) service_without_data)) = 500
   \<and> body (response (POST (Some email_only) service_without_data))
       = Obj [(''error'', Str ''Failed to process content'')]"
  by (simp add: transformMicroserviceResponse_def handle_result_def handle_fetch_def POST_def
      POST_try_def no_content_def form_get_def email_only_def service_without_data_def)

text \<open>
  C9, amended: for every upstream payload that is neither \<open>null\<close> nor \<open>undefined\<close> (the
  payloads on which \<open>transformMicroserviceResponse\<close> returns a record), in both
  branches and for each of the four MoneyFields: when the upstream field has no currency
  (omitted, \<open>null\<close> or empty) the transformed currency is \<open>USD\<close>; when the upstream field
  is absent altogether the transformed field has the status \<open>not_found\<close>, the value
  \<open>null\<close>, the currency \<open>USD\<close>, no provenance snippet and empty notes. The upstream
  field \<open>u\<close> is read under \<open>totals\<close> in the old format and at the top level in the new
  one.
\<close>

theorem money_field_defaults:
  assumes "transformMicroserviceResponse d = Inr t"
    and "f \<in> set money_names"
    and "u = (if truthy (isOldFormat d) then jget (jget d ''totals'') f else jget d f)"
  shows "\<not> nullish d
    \<and> (\<not> truthy (jget_opt u ''currency'') \<longrightarrow> jget (jget t f) ''currency'' = Str ''USD'')
    \<and> (nullish u \<longrightarrow>
         jget t f = Obj [(''status'', Str ''not_found''), (''value'', Null),
                         (''currency'', Str ''USD''), (''provenance_snippet'', Null),
                         (''notes'', Str '''')])"
proof -
  have t: "jget t f = money_field u"
    using transform_money [OF assms(1,2)] assms(3) by simp
  have "\<not> nullish d"
    using assms(1) by (simp add: transformMicroserviceResponse_def split: if_splits)
  moreover
  have "\<not> truthy (jget_opt u ''currency'') \<longrightarrow> jget (jget t f) ''currency'' = Str ''USD''"
    unfolding t by (simp add: money_field_reads jor_def del: jget.simps)
  moreover have "nullish u \<longrightarrow>
      jget t f = Obj [(''status'', Str ''not_found''), (''value'', Null),
                      (''currency'', Str ''USD''), (''provenance_snippet'', Null),
                      (''notes'', Str '''')]"
    unfolding t by (simp add: money_field_def jget_opt_def jor_def jnc_def)
  ultimately show ?thesis
    by blast
qed

theorem money_field_defaults_witness:
  "(case transformMicroserviceResponse payload_old of
      Inl e \<Rightarrow> False
    | Inr t \<Rightarrow> jget_opt (jget (jget payload_old ''totals'') ''total_quote'') ''currency'' = Undefined
             \<and> jget (jget t ''total_quote'') ''currency'' = Str ''USD''
             \<and> jget (jget payload_old ''totals'') ''fnb_total'' = Undefined
             \<and> jget t ''fnb_total'' =
                 Obj [(''status'', Str ''not_found''), (''value'', Null),
                      (''currency'', Str ''USD''), (''provenance_snippet'', Null),
                      (''notes'', Str '''')])
   \<and> (case transformMicroserviceResponse payload_new of
      Inl e \<Rightarrow> False
    | Inr t \<Rightarrow> jget_opt (jget payload_new ''total_quote'') ''currency'' = Undefined
             \<and> jget (jget t ''total_quote'') ''currency'' = Str ''USD''
             \<and> jget payload_new ''fnb_total'' = Undefined
             \<and> jget t ''fnb_total'' =
                 Obj [(''status'', Str ''not_found''), (''value'', Null),
                      (''currency'', Str ''USD''), (''provenance_snippet'', Null),
                      (''notes'', Str '''')])"
proof -
  obtain t where t: "transformMicroserviceResponse payload_old = Inr t"
    using transform_payload_old by blast
  obtain t' where t': "transformMicroserviceResponse payload_new = Inr t'"
    using transform_payload_new by blast
  have names: "''total_quote'' \<in> set money_names" "''fnb_total'' \<in> set money_names"
    by (simp_all add: money_names_def)
  have old: "truthy (isOldFormat payload_old)" and new: "\<not> truthy (isOldFormat payload_new)"
    by (simp_all add: truthy_isOldFormat payload_old_def payload_new_def)
  have reads_old:
    "jget_opt (jget (jget payload_old ''totals'') ''total_quote'') ''currency'' = Undefined"
    "jget (jget payload_old ''totals'') ''fnb_total'' = Undefined"
    by (simp_all add: payload_old_def jget_opt_def)
  have reads_new:
    "jget_opt (jget payload_new ''total_quote'') ''currency'' = Undefined"
    "jget payload_new ''fnb_total'' = Undefined"
    by (simp_all add: payload_new_def jget_opt_def)
  from money_field_defaults [OF t names(1) refl] old reads_old
  have a: "jget (jget t ''total_quote'') ''currency'' = Str ''USD''"
    by simp
  from money_field_defaults [OF t names(2) refl] old reads_old
  have b: "jget t ''fnb_total'' =
      Obj [(''status'', Str ''not_found''), (''value'', Null),
           (''currency'', Str ''USD''), (''provenance_snippet'', Null), (''notes'', Str '''')]"
    by simp
  from money_field_defaults [OF t' names(1) refl] new reads_new
  have c: "jget (jget t' ''total_quote'') ''currency'' = Str ''USD''"
    by simp
  from money_field_defaults [OF t' names(2) refl] new reads_new
  have d: "jget t' ''fnb_total'' =
      Obj [(''status'', Str ''not_found''), (''value'', Null),
           (''currency'', Str ''USD''), (''provenance_snippet'', Null), (''notes'', Str '''')]"
    by simp
  show ?thesis
    unfolding t t' using a b c d reads_old reads_new by simp
qed

subsection \<open>Numeric extras that are zero\<close>

text \<open>
  C10: in both branches of \<open>transformMicroserviceResponse\<close>, for each of the eight numeric
  extras: when the microservice reports the number 0 (of either sign), the transformed
  record has \<open>null\<close> in its place, as it has for every falsy upstream value; a truthy
  one is copied. The upstream value \<open>v\<close> is read under \<open>extras\<close> in the old format and at
  the top level in the new one.
\<close>

theorem zero_extra_becomes_null:
  assumes "transformMicroserviceResponse d = Inr t"
    and "x \<in> set numeric_extras"
    and "v = (if truthy (isOldFormat d) then jget (jget d ''extras'') x else jget d x)"
  shows "(v = Num (Finite s 0) \<longrightarrow> jget (jget t ''extras'') x = Null)
    \<and> (\<not> truthy v \<longrightarrow> jget (jget t ''extras'') x = Null)
    \<and> (truthy v \<longrightarrow> jget (jget t ''extras'') x = v)"
  using transform_extras [OF assms(1), of x] assms(2,3)
  by (auto simp add: jor_def simp del: jget.simps)

theorem zero_extra_becomes_null_witness:
  "(case transformMicroserviceResponse payload_old of
      Inl e \<Rightarrow> False
    | Inr t \<Rightarrow> jget (jget payload_old ''extras'') ''fnb_minimum'' = Num (Finite False 0)
             \<and> jget (jget t ''extras'') ''fnb_minimum'' = Null)
   \<and> (case transformMicroserviceResponse payload_new of
      Inl e \<Rightarrow> False
    | Inr t \<Rightarrow> jget payload_new ''fnb_minimum'' = Num (Finite False 0)
             \<and> jget (jget t ''extras'') ''fnb_minimum'' = Null)"
proof -
  obtain t where t: "transformMicroserviceResponse payload_old = Inr t"
    using transform_payload_old by blast
  obtain t' where t': "transformMicroserviceResponse payload_new = Inr t'"
    using transform_payload_new by blast
  have x: "''fnb_minimum'' \<in> set numeric_extras"
    by (simp add: numeric_extras_def)
  have old: "truthy (isOldFormat payload_old)" and new: "\<not> truthy (isOldFormat payload_new)"
    by (simp_all add: truthy_isOldFormat payload_old_def payload_new_def)
  have reads:
    "jget (jget payload_old ''extras'') ''fnb_minimum'' = Num (Finite False 0)"
    "jget payload_new ''fnb_minimum'' = Num (Finite False 0)"
    by (simp_all add: payload_old_def payload_new_def)
  have "jget (jget t ''extras'') ''fnb_minimum'' = Null"
    using zero_extra_becomes_null [OF t x refl, of False] old reads by simp
  moreover have "jget (jget t' ''extras'') ''fnb_minimum'' = Null"
    using zero_extra_becomes_null [OF t' x refl, of False] new reads by simp
  ultimately show ?thesis
    unfolding t t' using reads by simp
qed

subsection \<open>The two formats\<close>

text \<open>
  C7: an old-format payload (\<open>totals\<close> and \<open>extras\<close> both truthy) and a new-format payload
  that holds, at its top level, the same MoneyFields as the \<open>totals\<close> of the first, the
  same extras as its \<open>extras\<close>, and the same common fields, are transformed to equal
  records. The two branches of the format check compute one function of the fields they
  read.
\<close>

theorem old_and_new_format_agree:
  assumes "truthy (isOldFormat old)"
    and "\<not> nullish new" and "\<not> truthy (isOldFormat new)"
    and "\<forall>f \<in> set money_names. jget new f = jget (jget old ''totals'') f"
    and "\<forall>x \<in> set extras_names. jget new x = jget (jget old ''extras'') x"
    and "\<forall>c \<in> set common_names. jget new c = jget old c"
  shows "transformMicroserviceResponse old = transformMicroserviceResponse new"
proof -
  from assms(1) have totals: "truthy (jget old ''totals'')" and extras: "truthy (jget old ''extras'')"
    by (simp_all add: truthy_isOldFormat)
  from totals have old: "\<not> nullish old"
    by (cases old) simp_all
  have "transformed_old old = transformed_new new"
    using assms(4,5) totals extras
    by (simp add: transformed_old_def transformed_new_def Let_def jor_def money_names_def
        extras_names_def numeric_extras_def del: jget.simps)
  moreover have "add_common_fields old r = add_common_fields new r" for r
    using assms(6) by (simp add: add_common_fields_def common_names_def del: jget.simps)
  ultimately show ?thesis
    using assms(1,2,3) old by (simp add: transformMicroserviceResponse_def)
qed

theorem old_and_new_format_agree_witness:
  "truthy (isOldFormat payload_old) \<and> \<not> truthy (isOldFormat payload_new)
   \<and> transformMicroserviceResponse payload_old = transformMicroserviceResponse payload_new
   \<and> transformMicroserviceResponse payload_new \<noteq> Inl TypeError"
proof -
  have old: "truthy (isOldFormat payload_old)"
    and new: "\<not> nullish payload_new" "\<not> truthy (isOldFormat payload_new)"
    by (simp_all add: truthy_isOldFormat payload_old_def payload_new_def)
  have money: "\<forall>f \<in> set money_names. jget payload_new f = jget (jget payload_old ''totals'') f"
    by (simp add: money_names_def payload_old_def payload_new_def)
  have extras: "\<forall>x \<in> set extras_names. jget payload_new x = jget (jget payload_old ''extras'') x"
    by (simp add: extras_names_def numeric_extras_def payload_old_def payload_new_def)
  have common: "\<forall>c \<in> set common_names. jget payload_new c = jget payload_old c"
    by (simp add: common_names_def payload_old_def payload_new_def)
  have "transformMicroserviceResponse payload_old = transformMicroserviceResponse payload_new"
    by (rule old_and_new_format_agree [OF old new money extras common])
  moreover have "transformMicroserviceResponse payload_new \<noteq> Inl TypeError"
    using new(1) by (simp add: transformMicroserviceResponse_def)
  ultimately show ?thesis
    using old new by simp
qed

subsection \<open>The conditions of the meeting-room card\<close>

text \<open>
  C8: when the status of \<open>meeting_room_total\<close> is \<open>conditional\<close>, the conditions of the
  meeting-room card are one string: the provenance snippet when there is one (not \<open>null\<close>
  and not empty), otherwise the notes when they are not empty, otherwise the default
  \<open>Conditional on F&B minimum\<close>. With any other status, and before a record is loaded,
  the list is empty.
\<close>

theorem meeting_room_conditions:
  "(status (meeting_room_total q) = Conditional
      \<and> provenance_snippet (meeting_room_total q) = Some s \<and> s \<noteq> [] \<longrightarrow>
      getMeetingRoomConditions (Some q) = [s])
   \<and> (status (meeting_room_total q) = Conditional
      \<and> \<not> string_provided (provenance_snippet (meeting_room_total q))
      \<and> notes (meeting_room_total q) \<noteq> [] \<longrightarrow>
      getMeetingRoomConditions (Some q) = [notes (meeting_room_total q)])
   \<and> (status (meeting_room_total q) = Conditional
      \<and> \<not> string_provided (provenance_snippet (meeting_room_total q))
      \<and> notes (meeting_room_total q) = [] \<longrightarrow>
      getMeetingRoomConditions (Some q) = [''Conditional on F&B minimum''])
   \<and> (status (meeting_room_total q) \<noteq> Conditional \<longrightarrow> getMeetingRoomConditions (Some q) = [])
   \<and> getMeetingRoomConditions None = []
   \<and> conditions (meeting_room_card q) = getMeetingRoomConditions (Some q)"
  by (cases "provenance_snippet (meeting_room_total q)")
    (simp_all add: getMeetingRoomConditions_def meeting_room_card_def or_string_def)

theorem meeting_room_conditions_witness:
  "status (meeting_room_total quote_example) = Conditional
   \<and> provenance_snippet (meeting_room_total quote_example)
       = Some ''Rental waived if the F&B minimum is met''
   \<and> getMeetingRoomConditions (Some quote_example) = [''Rental waived if the F&B minimum is met'']
   \<and> status (meeting_room_total (quote_example
         \<lparr>meeting_room_total := (meeting_room_total quote_example)\<lparr>status := Explicit\<rparr>\<rparr>)) \<noteq> Conditional
   \<and> getMeetingRoomConditions (Some (quote_example
         \<lparr>meeting_room_total := (meeting_room_total quote_example)\<lparr>status := Explicit\<rparr>\<rparr>)) = []"
proof -
  have given:
    "status (meeting_room_total quote_example) = Conditional
     \<and> provenance_snippet (meeting_room_total quote_example)
         = Some ''Rental waived if the F&B minimum is met''
     \<and> ''Rental waived if the F&B minimum is met'' \<noteq> []"
    by (simp add: quote_example_def)
  from meeting_room_conditions
    [where q = quote_example and s = "''Rental waived if the F&B minimum is met''"] given
  have a: "getMeetingRoomConditions (Some quote_example) = [''Rental waived if the F&B minimum is met'']"
    by blast
  have other: "status (meeting_room_total (quote_example
      \<lparr>meeting_room_total := (meeting_room_total quote_example)\<lparr>status := Explicit\<rparr>\<rparr>)) \<noteq> Conditional"
    by simp
  from meeting_room_conditions
    [where q = "quote_example
       \<lparr>meeting_room_total := (meeting_room_total quote_example)\<lparr>status := Explicit\<rparr>\<rparr>"
      and s = "[]"] other
  have b: "getMeetingRoomConditions (Some (quote_example
      \<lparr>meeting_room_total := (meeting_room_total quote_example)\<lparr>status := Explicit\<rparr>\<rparr>)) = []"
    by blast
  from given a other b show ?thesis
    by blast
qed

subsection \<open>A request with no content\<close>

text \<open>
  C5, as stated, fails for a request whose body cannot be read as form data (a \<open>POST\<close>
  with no body, or with a JSON body): \<open>request.formData()\<close> rejects, none of the five
  fields is there, and the \<open>catch\<close> block answers with status 500, not 400.
\<close>

theorem unreadable_request_is_500:
  "http_status (response (POST None service_down)) = 500
   \<and> http_status (response (POST None service_down)) \<noteq> 400
   \<and> body (response (POST None service_down)) = Obj [(''error'', Str ''Failed to process content'')]
   \<and> extract_calls (POST None service_down) = []"
  by (simp add: POST_def POST_try_def)

text \<open>
  C5, amended: for every request whose body is read as form data and in which none of
  \<open>email_content\<close>, \<open>email_file\<close>, \<open>proposal_file\<close>, \<open>proposal_url\<close> and \<open>file\<close> is provided
  (each is absent or an empty string), the handler answers with status 400 and the error
  \<open>No content provided for extraction\<close>, and sends nothing to the microservice, whatever
  the microservice would do. A request whose body cannot be read as form data is answered
  with status 500 and \<open>Failed to process content\<close>, and nothing is sent to the
  microservice either.
\<close>

theorem no_content_is_rejected:
  "((\<forall>k \<in> set input_keys. \<not> provided (form_get formData k)) \<longrightarrow>
      POST (Some formData) fetch =
        \<lparr>response = \<lparr>body = Obj [(''error'', Str ''No content provided for extraction'')],
                     http_status = 400\<rparr>,
         extract_calls = []\<rparr>)
   \<and> ((\<forall>k \<in> set input_keys. form_get formData k = None) \<longrightarrow>
      (\<forall>k \<in> set input_keys. \<not> provided (form_get formData k)))
   \<and> POST None fetch =
        \<lparr>response = \<lparr>body = Obj [(''error'', Str ''Failed to process content'')],
                     http_status = 500\<rparr>,
         extract_calls = []\<rparr>"
  by (simp add: POST_def POST_try_def no_content_def input_keys_def)

theorem no_content_is_rejected_witness:
  "POST (Some []) service_down =
     \<lparr>response = \<lparr>body = Obj [(''error'', Str ''No content provided for extraction'')],
                  http_status = 400\<rparr>,
      extract_calls = []\<rparr>
   \<and> POST (Some [(''email_content'', Text []), (''note'', Text ''hello'')]) service_down =
     \<lparr>response = \<lparr>body = Obj [(''error'', Str ''No content provided for extraction'')],
                  http_status = 400\<rparr>,
      extract_calls = []\<rparr>"
proof -
  have "\<forall>k \<in> set input_keys. \<not> provided (form_get [] k)"
    by (simp add: input_keys_def form_get_def)
  with no_content_is_rejected [where formData = "[]" and fetch = service_down]
  have a: "POST (Some []) service_down =
     \<lparr>response = \<lparr>body = Obj [(''error'', Str ''No content provided for extraction'')],
                  http_status = 400\<rparr>,
      extract_calls = []\<rparr>"
    by blast
  have "\<forall>k \<in> set input_keys.
      \<not> provided (form_get [(''email_content'', Text []), (''note'', Text ''hello'')] k)"
    by (simp add: input_keys_def form_get_def)
  with no_content_is_rejected
    [where formData = "[(''email_content'', Text []), (''note'', Text ''hello'')]"
       and fetch = service_down]
  have b: "POST (Some [(''email_content'', Text []), (''note'', Text ''hello'')]) service_down =
     \<lparr>response = \<lparr>body = Obj [(''error'', Str ''No content provided for extraction'')],
                  http_status = 400\<rparr>,
      extract_calls = []\<rparr>"
    by blast
  from a b show ?thesis
    by (rule conjI)
qed

subsection \<open>The shape of a failure\<close>




subsection \<open>Precedence of the proposal over the email\<close>

text \<open>
  C3, against the merge as the specification words it: with both records supplied, a
  field that the proposal-derived record has (not \<open>not_found\<close>) is the proposal's;
  otherwise it is the email's when the email-derived record has it; otherwise it is
  \<open>not_found\<close>. With only a proposal supplied the merged record is the proposal-derived
  record.
\<close>

theorem proposal_takes_precedence:
  "(proposal f = Some v \<longrightarrow> merge_records (Some email) (Some proposal) f = Some v)
   \<and> (proposal f = None \<and> email f = Some w \<longrightarrow>
        merge_records (Some email) (Some proposal) f = Some w)
   \<and> (proposal f = None \<and> email f = None \<longrightarrow>
        merge_records (Some email) (Some proposal) f = None)
   \<and> merge_records None (Some proposal) = proposal"
proof -
  have "merge_records None (Some proposal) g = proposal g" for g
    by (cases "proposal g") (simp_all add: merge_records_def merge_field_def field_of_def)
  then have "merge_records None (Some proposal) = proposal"
    by (rule ext)
  moreover have "proposal f = None \<and> email f = None \<longrightarrow>
      merge_records (Some email) (Some proposal) f = None"
    by (simp add: merge_records_def merge_field_def field_of_def)
  moreover have "proposal f = None \<and> email f = Some w \<longrightarrow>
      merge_records (Some email) (Some proposal) f = Some w"
    by (simp add: merge_records_def merge_field_def field_of_def)
  moreover have "proposal f = Some v \<longrightarrow> merge_records (Some email) (Some proposal) f = Some v"
    by (simp add: merge_records_def merge_field_def field_of_def)
  ultimately show ?thesis
    by blast
qed

theorem proposal_takes_precedence_witness:
  "merge_records
       (Some [''total_quote'' \<mapsto> (68447::int), ''fnb_total'' \<mapsto> 13447])
       (Some [''total_quote'' \<mapsto> 72975]) ''total_quote'' = Some 72975
   \<and> merge_records
       (Some [''total_quote'' \<mapsto> (68447::int), ''fnb_total'' \<mapsto> 13447])
       (Some [''total_quote'' \<mapsto> 72975]) ''fnb_total'' = Some 13447
   \<and> merge_records
       (Some [''total_quote'' \<mapsto> (68447::int), ''fnb_total'' \<mapsto> 13447])
       (Some [''total_quote'' \<mapsto> 72975]) ''guestroom_total'' = None
   \<and> merge_records None (Some [''total_quote'' \<mapsto> (72975::int)]) = [''total_quote'' \<mapsto> 72975]"
proof -
  let ?email = "[''total_quote'' \<mapsto> (68447::int), ''fnb_total'' \<mapsto> 13447]"
  let ?proposal = "[''total_quote'' \<mapsto> (72975::int)]"
  have "?proposal ''total_quote'' = Some 72975"
    by simp
  with proposal_takes_precedence
    [where proposal = ?proposal and email = ?email and f = "''total_quote''" and v = 72975
       and w = 0]
  have a: "merge_records (Some ?email) (Some ?proposal) ''total_quote'' = Some 72975"
    by blast
  have "?proposal ''fnb_total'' = None \<and> ?email ''fnb_total'' = Some 13447"
    by simp
  with proposal_takes_precedence
    [where proposal = ?proposal and email = ?email and f = "''fnb_total''" and v = 0
       and w = 13447]
  have b: "merge_records (Some ?email) (Some ?proposal) ''fnb_total'' = Some 13447"
    by blast
  have "?proposal ''guestroom_total'' = None \<and> ?email ''guestroom_total'' = None"
    by simp
  with proposal_takes_precedence
    [where proposal = ?proposal and email = ?email and f = "''guestroom_total''" and v = 0
       and w = 0]
  have c: "merge_records (Some ?email) (Some ?proposal) ''guestroom_total'' = None"
    by blast
  from proposal_takes_precedence
    [where proposal = ?proposal and email = ?email and f = "''total_quote''" and v = 0 and w = 0]
  have d: "merge_records None (Some ?proposal) = ?proposal"
    by blast
  from a b c d show ?thesis
    by blast
qed

section \<open>Further properties of the route\<close>

text \<open>
  \<open>transformMicroserviceResponse\<close> throws exactly on a payload that is \<open>null\<close> or
  \<open>undefined\<close>. On every other payload it returns an object with the same ten properties
  in the same order, whatever the format.
\<close>

theorem transform_result_shape:
  "(transformMicroserviceResponse d = Inl TypeError \<longleftrightarrow> nullish d)
   \<and> (\<not> nullish d \<longrightarrow>
        (\<exists>kvs. transformMicroserviceResponse d = Inr (Obj kvs)
           \<and> map fst kvs = money_names @ [''extras''] @ common_names))"
  by (simp add: transformMicroserviceResponse_def transformed_old_def transformed_new_def
      add_common_fields_def Let_def money_names_def common_names_def)

theorem transform_result_shape_witness:
  "\<not> nullish payload_old
   \<and> (case transformMicroserviceResponse payload_old of
        Inl e \<Rightarrow> False
      | Inr t \<Rightarrow> (case t of
          Obj kvs \<Rightarrow> map fst kvs = money_names @ [''extras''] @ common_names
        | _ \<Rightarrow> False))
   \<and> transformMicroserviceResponse Null = Inl TypeError"
proof -
  have given: "\<not> nullish payload_old"
    by (simp add: payload_old_def)
  with transform_result_shape [of payload_old]
  obtain kvs where "transformMicroserviceResponse payload_old = Inr (Obj kvs)"
    and "map fst kvs = money_names @ [''extras''] @ common_names"
    by blast
  moreover from transform_result_shape [of Null]
  have "transformMicroserviceResponse Null = Inl TypeError"
    by simp
  ultimately show ?thesis
    using given by simp
qed

text \<open>
  The handler sends at most one request to the microservice: one when the form data was
  read, \<open>email_content\<close> is not a file and some input was provided, and none otherwise.
  What it sends holds only provided entries, under the four names the microservice knows.
\<close>

theorem extract_called_at_most_once:
  "extract_calls (POST request fetch) =
     (case request of
        None \<Rightarrow> []
      | Some formData \<Rightarrow>
          if (provided (form_get formData ''email_content'')
              \<and> substring_throws (form_get formData ''email_content''))
             \<or> no_content formData
          then [] else [microservice_form formData])
   \<and> (\<forall>entry \<in> set (microservice_form formData).
        fst entry \<in> {''email_content'', ''email_file'', ''proposal_file'', ''proposal_url''}
        \<and> provided (Some (snd entry)))"
proof -
  define sendable :: "FormData \<Rightarrow> bool" where
    "sendable form \<longleftrightarrow>
       (\<forall>entry \<in> set form.
          fst entry \<in> {''email_content'', ''email_file'', ''proposal_file'', ''proposal_url''}
          \<and> provided (Some (snd entry)))" for form
  have calls: "extract_calls (POST request fetch) = snd (POST_try request fetch)"
    by (cases "POST_try request fetch"; cases "fst (POST_try request fetch)") (auto simp add: POST_def)
  have nil: "sendable []"
    by (simp add: sendable_def)
  have step: "sendable (append_if_provided form k v)"
    if "sendable form"
      and "k \<in> {''email_content'', ''email_file'', ''proposal_file'', ''proposal_url''}"
    for form k v
    using that by (cases v) (auto simp add: sendable_def)
  have legacy: "sendable (append_legacy form v)" if "sendable form" and "provided v" for form v
    using that by (cases v) (auto simp add: sendable_def)
  have "sendable (microservice_form formData)"
    by (simp add: microservice_form_def Let_def nil step legacy)
  then show ?thesis
    unfolding calls sendable_def by (simp add: POST_try_def split: option.splits)
qed

theorem extract_called_at_most_once_witness:
  "extract_calls (POST (Some email_only) service_down) = [email_only]
   \<and> extract_calls (POST (Some [(''email_content'', File ''a.txt'' 5 ''text/plain'')]) service_down) = []
   \<and> extract_calls (POST (Some []) service_down) = []
   \<and> extract_calls (POST None service_down) = []"
proof -
  have form: "microservice_form email_only = email_only"
    by (simp add: microservice_form_def email_only_def form_get_def)
  from extract_called_at_most_once [of "Some email_only" service_down email_only]
  have a: "extract_calls (POST (Some email_only) service_down) = [email_only]"
    by (simp add: form) (simp add: email_only_def form_get_def no_content_def)
  from extract_called_at_most_once
    [of "Some [(''email_content'', File ''a.txt'' 5 ''text/plain'')]" service_down email_only]
  have b: "extract_calls
      (POST (Some [(''email_content'', File ''a.txt'' 5 ''text/plain'')]) service_down) = []"
    by (simp add: form_get_def)
  from extract_called_at_most_once [of "Some []" service_down email_only]
  have c: "extract_calls (POST (Some []) service_down) = []"
    by (simp add: form_get_def no_content_def)
  from extract_called_at_most_once [of None service_down email_only]
  have d: "extract_calls (POST None service_down) = []"
    by simp
  from a b c d show ?thesis
    by blast
qed

text \<open>
  The legacy \<open>file\<close> entry, when neither a proposal file nor an email file comes with it,
  is sent last: as \<open>proposal_file\<close> when it is a PDF, as \<open>email_file\<close> otherwise.
\<close>

theorem legacy_file_is_forwarded:
  assumes "form_get formData ''file'' = Some legacyFile"
    and "provided (Some legacyFile)"
    and "\<not> provided (form_get formData ''proposal_file'')"
    and "\<not> provided (form_get formData ''email_file'')"
  shows "microservice_form formData =
     append_if_provided
       (append_if_provided [] ''email_content'' (form_get formData ''email_content''))
       ''proposal_url'' (form_get formData ''proposal_url'')
     @ [(if is_pdf legacyFile then ''proposal_file'' else ''email_file'', legacyFile)]"
proof -
  have skip: "append_if_provided form k v = form" if "\<not> provided v" for form k v
    using that by (cases v) simp_all
  from assms show ?thesis
    by (simp add: microservice_form_def Let_def skip)
qed

theorem legacy_file_is_forwarded_witness:
  "microservice_form [(''file'', File ''proposal.pdf'' 1024 ''application/pdf'')]
     = [(''proposal_file'', File ''proposal.pdf'' 1024 ''application/pdf'')]
   \<and> microservice_form [(''file'', File ''mail.html'' 512 ''text/html'')]
     = [(''email_file'', File ''mail.html'' 512 ''text/html'')]"
proof -
  have a: "microservice_form [(''file'', File ''proposal.pdf'' 1024 ''application/pdf'')]
      = [(''proposal_file'', File ''proposal.pdf'' 1024 ''application/pdf'')]"
    using legacy_file_is_forwarded
      [of "[(''file'', File ''proposal.pdf'' 1024 ''application/pdf'')]"
          "File ''proposal.pdf'' 1024 ''application/pdf''"]
    by (simp add: form_get_def)
  have b: "microservice_form [(''file'', File ''mail.html'' 512 ''text/html'')]
      = [(''email_file'', File ''mail.html'' 512 ''text/html'')]"
    using legacy_file_is_forwarded
      [of "[(''file'', File ''mail.html'' 512 ''text/html'')]"
          "File ''mail.html'' 512 ''text/html''"]
    by (simp add: form_get_def)
  from a b show ?thesis
    by (rule conjI)
qed

text \<open>
  A payload that is not \<open>null\<close> and has none of the properties the route reads (a string,
  a number, an array, the empty object) is not an error: it is transformed to the record
  of defaults, every MoneyField \<open>not_found\<close> and every extra \<open>null\<close>, and the handler
  returns that record with \<open>success: true\<close>.
\<close>

theorem payload_without_fields_gives_defaults:
  assumes "\<not> nullish d" and "\<forall>k. jget d k = Undefined"
  shows "transformMicroserviceResponse d = Inr default_record
    \<and> (truthy (jget result ''success'') \<and> jget result ''data'' = d \<longrightarrow>
      handle_result result =
        Inr \<lparr>body = Obj [(''success'', Bool True), (''data'', default_record),
                          (''sources'', jget result ''sources''),
                          (''urls_found'', jget result ''urls_found'')],
             http_status = 200\<rparr>)"
proof -
  have transformed: "transformMicroserviceResponse d = Inr default_record"
    using assms
    by (simp add: transformMicroserviceResponse_def isOldFormat_def jand_def transformed_new_def
        add_common_fields_def Let_def jor_def jnc_def jget_opt_def default_record_def)
  have "handle_result result =
        Inr \<lparr>body = Obj [(''success'', Bool True), (''data'', default_record),
                          (''sources'', jget result ''sources''),
                          (''urls_found'', jget result ''urls_found'')],
             http_status = 200\<rparr>"
    if given: "truthy (jget result ''success'') \<and> jget result ''data'' = d"
  proof -
    from given have "\<not> nullish result"
      by (cases result) auto
    with given transformed show ?thesis
      by (simp add: handle_result_def)
  qed
  with transformed show ?thesis
    by blast
qed

theorem payload_without_fields_gives_defaults_witness:
  "transformMicroserviceResponse (Str ''Sorry, no quote found'') = Inr default_record
   \<and> transformMicroserviceResponse (Obj []) = Inr default_record
   \<and> handle_result (Obj [(''success'', Bool True), (''data'', Arr [])]) =
        Inr \<lparr>body = Obj [(''success'', Bool True), (''data'', default_record),
                          (''sources'', Undefined), (''urls_found'', Undefined)],
             http_status = 200\<rparr>"
proof -
  have a: "transformMicroserviceResponse (Str ''Sorry, no quote found'') = Inr default_record"
    using payload_without_fields_gives_defaults [of "Str ''Sorry, no quote found''" Null]
    by simp
  have b: "transformMicroserviceResponse (Obj []) = Inr default_record"
    using payload_without_fields_gives_defaults [of "Obj []" Null]
    by simp
  have c: "handle_result (Obj [(''success'', Bool True), (''data'', Arr [])]) =
        Inr \<lparr>body = Obj [(''success'', Bool True), (''data'', default_record),
                          (''sources'', Undefined), (''urls_found'', Undefined)],
             http_status = 200\<rparr>"
    using payload_without_fields_gives_defaults
      [of "Arr []" "Obj [(''success'', Bool True), (''data'', Arr [])]"]
    by simp
  from a b c show ?thesis
    by blast
qed

end
